theory Spec2Isabelle
  imports Complex_Main
begin

section \<open>JavaScript numbers\<close>

text \<open>
  The calculator of \<^verbatim>\<open>src/utils/score2Calculator.js\<close> computes on JavaScript numbers.
  A finite double is modelled by the real number it stands for, so rounding errors of the
  double arithmetic are not part of the model; the three special values are kept, because
  \<^verbatim>\<open>Math.log\<close> produces them: \<^verbatim>\<open>Math.log(0)\<close> is \<^verbatim>\<open>-Infinity\<close> and the logarithm
  of a negative number is \<^verbatim>\<open>NaN\<close>. The model has a single zero, read as \<^verbatim>\<open>+0\<close>.
\<close>

datatype number = Num real | PosInf | NegInf | NaN

text \<open>Truthiness of a number: \<^verbatim>\<open>0\<close> and \<^verbatim>\<open>NaN\<close> are falsy.\<close>

fun truthy :: "number \<Rightarrow> bool" where
  "truthy (Num r) = (r \<noteq> 0)"
| "truthy PosInf = True"
| "truthy NegInf = True"
| "truthy NaN = False"

fun num_neg :: "number \<Rightarrow> number" where
  "num_neg (Num a) = Num (- a)"
| "num_neg PosInf = NegInf"
| "num_neg NegInf = PosInf"
| "num_neg NaN = NaN"

fun num_add :: "number \<Rightarrow> number \<Rightarrow> number" where
  "num_add (Num a) (Num b) = Num (a + b)"
| "num_add NaN y = NaN"
| "num_add x NaN = NaN"
| "num_add PosInf NegInf = NaN"
| "num_add NegInf PosInf = NaN"
| "num_add PosInf y = PosInf"
| "num_add NegInf y = NegInf"
| "num_add (Num a) y = y"

definition num_sub :: "number \<Rightarrow> number \<Rightarrow> number" where
  "num_sub x y = num_add x (num_neg y)"

text \<open>The sign of an infinity times a finite factor; zero times infinity is \<^verbatim>\<open>NaN\<close>.\<close>

definition signed_inf :: "real \<Rightarrow> number" where
  "signed_inf s = (if 0 < s then PosInf else if s < 0 then NegInf else NaN)"

fun num_mul :: "number \<Rightarrow> number \<Rightarrow> number" where
  "num_mul (Num a) (Num b) = Num (a * b)"
| "num_mul NaN y = NaN"
| "num_mul x NaN = NaN"
| "num_mul PosInf (Num b) = signed_inf b"
| "num_mul NegInf (Num b) = signed_inf (- b)"
| "num_mul (Num a) PosInf = signed_inf a"
| "num_mul (Num a) NegInf = signed_inf (- a)"
| "num_mul PosInf PosInf = PosInf"
| "num_mul NegInf NegInf = PosInf"
| "num_mul PosInf NegInf = NegInf"
| "num_mul NegInf PosInf = NegInf"

text \<open>
  Division. A finite number divided by zero is an infinity with the sign of the dividend
  (the zero being \<^verbatim>\<open>+0\<close>), and \<^verbatim>\<open>0 / 0\<close> is \<^verbatim>\<open>NaN\<close>. Every divisor of the source is a
  non-zero literal or a percentage clamped to at least 0.1.
\<close>

fun num_div :: "number \<Rightarrow> number \<Rightarrow> number" where
  "num_div (Num a) (Num b) = (if b = 0 then signed_inf a else Num (a / b))"
| "num_div NaN y = NaN"
| "num_div x NaN = NaN"
| "num_div (Num a) y = Num 0"
| "num_div PosInf (Num b) = (if 0 \<le> b then PosInf else NegInf)"
| "num_div NegInf (Num b) = (if 0 \<le> b then NegInf else PosInf)"
| "num_div x y = NaN"

text \<open>Comparisons: every comparison with \<^verbatim>\<open>NaN\<close> is false.\<close>

fun num_lt :: "number \<Rightarrow> number \<Rightarrow> bool" where
  "num_lt (Num a) (Num b) = (a < b)"
| "num_lt NaN y = False"
| "num_lt x NaN = False"
| "num_lt x NegInf = False"
| "num_lt PosInf y = False"
| "num_lt NegInf y = True"
| "num_lt (Num a) PosInf = True"

fun num_le :: "number \<Rightarrow> number \<Rightarrow> bool" where
  "num_le (Num a) (Num b) = (a \<le> b)"
| "num_le NaN y = False"
| "num_le x NaN = False"
| "num_le NegInf y = True"
| "num_le x PosInf = True"
| "num_le x y = False"

definition num_gt :: "number \<Rightarrow> number \<Rightarrow> bool" where
  "num_gt x y = num_lt y x"

definition num_ge :: "number \<Rightarrow> number \<Rightarrow> bool" where
  "num_ge x y = num_le y x"

text \<open>\<^verbatim>\<open>Math.min\<close> and \<^verbatim>\<open>Math.max\<close> return \<^verbatim>\<open>NaN\<close> when an argument is \<^verbatim>\<open>NaN\<close>.\<close>

definition Math_min :: "number \<Rightarrow> number \<Rightarrow> number" where
  "Math_min x y = (if x = NaN \<or> y = NaN then NaN else if num_le x y then x else y)"

definition Math_max :: "number \<Rightarrow> number \<Rightarrow> number" where
  "Math_max x y = (if x = NaN \<or> y = NaN then NaN else if num_le x y then y else x)"

fun Math_log :: "number \<Rightarrow> number" where
  "Math_log (Num x) = (if 0 < x then Num (ln x) else if x = 0 then NegInf else NaN)"
| "Math_log PosInf = PosInf"
| "Math_log NegInf = NaN"
| "Math_log NaN = NaN"

fun Math_exp :: "number \<Rightarrow> number" where
  "Math_exp (Num x) = Num (exp x)"
| "Math_exp PosInf = PosInf"
| "Math_exp NegInf = Num 0"
| "Math_exp NaN = NaN"

text \<open>\<^verbatim>\<open>Math.round\<close> rounds to the nearest integer, a tie towards \<^verbatim>\<open>+Infinity\<close>.\<close>

fun Math_round :: "number \<Rightarrow> number" where
  "Math_round (Num x) = Num (of_int \<lfloor>x + 1 / 2\<rfloor>)"
| "Math_round PosInf = PosInf"
| "Math_round NegInf = NegInf"
| "Math_round NaN = NaN"

subsection \<open>Numbers in template literals\<close>

text \<open>The decimal digits of a natural number, the last digit appended to those before it.\<close>

fun decimal :: "nat \<Rightarrow> string" where
  "decimal n = (if 10 \<le> n then decimal (n div 10) else []) @ [''0123456789'' ! (n mod 10)]"

definition decimal_of_int :: "int \<Rightarrow> string" where
  "decimal_of_int i = (if 0 \<le> i then decimal (nat i) else CHR ''-'' # decimal (nat (- i)))"

text \<open>
  The text of a number that \<^verbatim>\<open>Math.round\<close> returned: such a number is an integer,
  an infinity or \<^verbatim>\<open>NaN\<close>, so \<open>\<lfloor>x\<rfloor>\<close> is \<open>x\<close> itself in the first case.
\<close>

fun String_of_rounded :: "number \<Rightarrow> string" where
  "String_of_rounded (Num x) = decimal_of_int \<lfloor>x\<rfloor>"
| "String_of_rounded PosInf = ''Infinity''"
| "String_of_rounded NegInf = ''-Infinity''"
| "String_of_rounded NaN = ''NaN''"

section \<open>Parameters and results\<close>

text \<open>
  The object handed to the calculator. A numeric field that is missing reads as
  \<^verbatim>\<open>undefined\<close>, which every use in the source treats as it treats \<^verbatim>\<open>NaN\<close>; a select
  that was never set is the empty string. The optional \<^verbatim>\<open>hdlCholesterol\<close> and
  \<^verbatim>\<open>bmi\<close> are \<open>None\<close> when the caller passes \<^verbatim>\<open>null\<close> or nothing.
\<close>

record Parameters =
  age :: number
  sex :: string
  region :: string
  smoking :: string
  systolicBP :: number
  totalCholesterol :: number
  cholesterolUnit :: string
  hdlCholesterol :: "number option"
  diabetes :: string
  bmi :: "number option"

record RiskResult =
  riskPercentage :: number
  riskCategory :: string
  heartAge :: number
  interpretation' :: string
  recommendations :: "string list"
  algorithm :: string

section \<open>calculateSCORE2Risk\<close>

text \<open>\<^verbatim>\<open>params.hdlCholesterol || null\<close>: a falsy value becomes \<^verbatim>\<open>null\<close>.\<close>

definition or_null :: "number option \<Rightarrow> number option" where
  "or_null v = (case v of None \<Rightarrow> None | Some x \<Rightarrow> if truthy x then Some x else None)"

text \<open>Lines 22 to 28: the two cholesterol values in mmol/L.\<close>

definition totalChol :: "Parameters \<Rightarrow> number" where
  "totalChol params =
     (if cholesterolUnit params = ''mg/dL''
      then num_div (totalCholesterol params) (Num 38.67)
      else totalCholesterol params)"

definition hdlChol :: "Parameters \<Rightarrow> number option" where
  "hdlChol params =
     (let h = or_null (hdlCholesterol params)
      in if cholesterolUnit params = ''mg/dL''
         then (case h of None \<Rightarrow> None
               | Some x \<Rightarrow> if truthy x then Some (num_div x (Num 38.67)) else Some x)
         else h)"

definition useScore2OP :: "Parameters \<Rightarrow> bool" where
  "useScore2OP params = num_ge (age params) (Num 70)"

text \<open>
  The object literal \<^verbatim>\<open>regionalFactors\<close> and its lookup
  \<^verbatim>\<open>regionalFactors[params.region] || 1.0\<close>. A key the literal does not have reads as
  \<^verbatim>\<open>undefined\<close>, and the factor is 1.0; but the names of the properties every object
  inherits read as a function or an object, which is truthy and multiplies to \<^verbatim>\<open>NaN\<close>.
\<close>

definition regionalFactors :: "string \<Rightarrow> real option" where
  "regionalFactors =
     [''low'' \<mapsto> 0.7, ''moderate'' \<mapsto> 1.0, ''high'' \<mapsto> 1.4, ''very-high'' \<mapsto> 1.8]"

definition Object_prototype_keys :: "string list" where
  "Object_prototype_keys =
     [''constructor'', ''__proto__'', ''hasOwnProperty'', ''isPrototypeOf'',
      ''propertyIsEnumerable'', ''toLocaleString'', ''toString'', ''valueOf'',
      ''__defineGetter__'', ''__defineSetter__'', ''__lookupGetter__'', ''__lookupSetter__'']"

definition regionalFactor :: "string \<Rightarrow> number" where
  "regionalFactor r =
     (case regionalFactors r of
        Some f \<Rightarrow> Num f
      | None \<Rightarrow> if r \<in> set Object_prototype_keys then NaN else Num 1.0)"

text \<open>Lines 37 to 84: the variable \<^verbatim>\<open>riskScore\<close>, as it stands after the last update.\<close>

definition riskScore :: "Parameters \<Rightarrow> number" where
  "riskScore params =
     (let riskScore = Num 0;
          ageComponent = num_mul (Math_log (num_div (age params) (Num 40)))
                                 (Num (if sex params = ''male'' then 0.8 else 0.7));
          riskScore = num_add riskScore ageComponent;
          sexComponent = Num (if sex params = ''male'' then 0.5 else 0);
          riskScore = num_add riskScore sexComponent;
          smokingComponent = Num (if smoking params = ''smoker'' then 0.6 else 0);
          riskScore = num_add riskScore smokingComponent;
          bpComponent = num_mul (Math_log (num_div (systolicBP params) (Num 120))) (Num 0.4);
          riskScore = num_add riskScore bpComponent;
          cholComponent = num_mul (Math_log (num_div (totalChol params) (Num 5.0))) (Num 0.3);
          riskScore = num_add riskScore cholComponent;
          riskScore =
            (case hdlChol params of
               None \<Rightarrow> riskScore
             | Some h \<Rightarrow>
                 if truthy h
                 then num_add riskScore
                        (num_mul (num_neg (Math_log (num_div h (Num 1.3)))) (Num 0.2))
                 else riskScore);
          riskScore = (if diabetes params = ''yes'' then num_add riskScore (Num 0.4) else riskScore);
          riskScore = num_mul riskScore (regionalFactor (region params));
          riskScore = (if useScore2OP params then num_mul riskScore (Num 1.2) else riskScore)
      in riskScore)"

text \<open>Lines 88 to 92: the variable \<^verbatim>\<open>riskPercentage\<close> after the clamp, before any rounding.\<close>

definition percentage :: "number \<Rightarrow> number \<Rightarrow> number" where
  "percentage score baselineRisk =
     num_mul (num_sub (Num 1) (Math_exp (num_mul (num_neg (Math_exp score)) baselineRisk)))
             (Num 100)"

definition bounds :: "number \<Rightarrow> number" where
  "bounds x = Math_max (Num 0.1) (Math_min (Num 50) x)"

definition clampedRiskPercentage :: "Parameters \<Rightarrow> number" where
  "clampedRiskPercentage params =
     (let baselineRisk = Num (if useScore2OP params then 0.15 else 0.08);
          riskPercentage = percentage (riskScore params) baselineRisk
      in bounds riskPercentage)"

definition categorizeRisk :: "number \<Rightarrow> number \<Rightarrow> string" where
  "categorizeRisk riskPercentage' age' =
     (if num_lt age' (Num 50)
      then (if num_lt riskPercentage' (Num 2.5) then ''low''
            else if num_lt riskPercentage' (Num 7.5) then ''moderate''
            else if num_lt riskPercentage' (Num 10) then ''high''
            else ''very-high'')
      else (if num_lt riskPercentage' (Num 5) then ''low''
            else if num_lt riskPercentage' (Num 10) then ''moderate''
            else if num_lt riskPercentage' (Num 15) then ''high''
            else ''very-high''))"

section \<open>calculateHeartAge\<close>

text \<open>Lines 138 to 144: the reference profile, a copy of the parameters with four fields replaced.\<close>

definition referenceParams :: "Parameters \<Rightarrow> Parameters" where
  "referenceParams params =
     params\<lparr>smoking := ''non-smoker'', systolicBP := Num 120,
            totalCholesterol := Num 5.0, diabetes := ''no''\<rparr>"

text \<open>
  Lines 147 to 211: the reference percentage. The source repeats the computation of
  \<^verbatim>\<open>calculateSCORE2Risk\<close> here instead of calling it. Lines 150 to 159 are lines 22 to 31
  on the reference profile; the converted \<^verbatim>\<open>totalChol\<close> is never read afterwards, because
  the blood pressure and cholesterol components are the literals
  \<^verbatim>\<open>Math.log(120 / 120) * 0.4\<close> and \<^verbatim>\<open>Math.log(5.0 / 5.0) * 0.3\<close>.
\<close>

definition referenceRiskPercentage :: "Parameters \<Rightarrow> number" where
  "referenceRiskPercentage params =
     (let referenceParams = referenceParams params;
          referenceRiskScore = Num 0;
          hdlChol = hdlChol referenceParams;
          useScore2OP = useScore2OP referenceParams;
          ageComponent = num_mul (Math_log (num_div (age referenceParams) (Num 40)))
                                 (Num (if sex referenceParams = ''male'' then 0.8 else 0.7));
          referenceRiskScore = num_add referenceRiskScore ageComponent;
          sexComponent = Num (if sex referenceParams = ''male'' then 0.5 else 0);
          referenceRiskScore = num_add referenceRiskScore sexComponent;
          smokingComponent = Num 0;
          referenceRiskScore = num_add referenceRiskScore smokingComponent;
          bpComponent = num_mul (Math_log (num_div (Num 120) (Num 120))) (Num 0.4);
          referenceRiskScore = num_add referenceRiskScore bpComponent;
          cholComponent = num_mul (Math_log (num_div (Num 5.0) (Num 5.0))) (Num 0.3);
          referenceRiskScore = num_add referenceRiskScore cholComponent;
          referenceRiskScore =
            (case hdlChol of
               None \<Rightarrow> referenceRiskScore
             | Some h \<Rightarrow>
                 if truthy h
                 then num_add referenceRiskScore
                        (num_mul (num_neg (Math_log (num_div h (Num 1.3)))) (Num 0.2))
                 else referenceRiskScore);
          referenceRiskScore =
            num_mul referenceRiskScore (regionalFactor (region referenceParams));
          referenceRiskScore =
            (if useScore2OP then num_mul referenceRiskScore (Num 1.2) else referenceRiskScore);
          baselineRisk = Num (if useScore2OP then 0.15 else 0.08);
          referenceRiskPercentage = percentage referenceRiskScore baselineRisk
      in bounds referenceRiskPercentage)"

text \<open>Lines 213 to 217.\<close>

definition calculateHeartAge :: "Parameters \<Rightarrow> number \<Rightarrow> number" where
  "calculateHeartAge params riskPercentage' =
     (let riskRatio = num_div riskPercentage' (referenceRiskPercentage params);
          heartAge = Math_round (num_add (age params)
                                   (num_mul (num_sub riskRatio (Num 1)) (Num 10)))
      in Math_max (age params) (Math_min (Num 100) heartAge))"

section \<open>generateRecommendations\<close>

text \<open>\<^verbatim>\<open>recommendations.push(s)\<close> appends to the end of the array.\<close>

definition push :: "string list \<Rightarrow> string \<Rightarrow> string list" where
  "push xs s = xs @ [s]"

definition generateRecommendations :: "Parameters \<Rightarrow> string \<Rightarrow> string list" where
  "generateRecommendations params riskCategory' =
     (let recommendations = [];
          recommendations =
            (if smoking params = ''smoker''
             then push (push recommendations
               ''Quit smoking - this is the single most important step to reduce your cardiovascular risk'')
               ''Consider nicotine replacement therapy or consult your doctor about smoking cessation aids''
             else recommendations);
          recommendations =
            (if num_gt (systolicBP params) (Num 140)
             then push (push (push recommendations
               ''Discuss blood pressure management with your doctor'')
               ''Reduce salt intake and increase physical activity'')
               ''Consider antihypertensive medication if lifestyle changes are insufficient''
             else if num_gt (systolicBP params) (Num 130)
             then push recommendations
               ''Monitor blood pressure regularly and maintain a healthy lifestyle''
             else recommendations);
          totalCholMmol =
            (if cholesterolUnit params = ''mg/dL''
             then num_div (totalCholesterol params) (Num 38.67)
             else totalCholesterol params);
          recommendations =
            (if num_gt totalCholMmol (Num 5.5)
             then push (push (push recommendations
               ''Discuss cholesterol management with your doctor'')
               ''Follow a Mediterranean-style diet rich in fruits, vegetables, and healthy fats'')
               ''Consider statin therapy if dietary changes are insufficient''
             else recommendations);
          recommendations =
            (if diabetes params = ''yes''
             then push (push (push recommendations
               ''Maintain optimal blood glucose control'')
               ''Regular monitoring of HbA1c levels'')
               ''Consider additional cardiovascular protection medications''
             else recommendations);
          recommendations =
            (if riskCategory' = ''moderate'' \<or> riskCategory' = ''high''
                \<or> riskCategory' = ''very-high''
             then push (push (push (push recommendations
               ''Engage in regular physical activity (at least 150 minutes of moderate exercise per week)'')
               ''Maintain a healthy weight (BMI 18.5-24.9)'')
               ''Limit alcohol consumption'')
               ''Consider low-dose aspirin therapy (consult your doctor)''
             else recommendations);
          recommendations =
            (if riskCategory' = ''low''
             then push (push (push recommendations
               ''Maintain your current healthy lifestyle'')
               ''Continue regular physical activity and healthy diet'')
               ''Regular health check-ups every 2-3 years''
             else recommendations)
      in recommendations)"

section \<open>generateInterpretation\<close>

definition generateInterpretation :: "number \<Rightarrow> string \<Rightarrow> string" where
  "generateInterpretation riskPercentage' sex' =
     (let roundedRisk = Math_round riskPercentage';
          pronoun = (if sex' = ''male'' then ''men'' else ''women'')
      in ''This means out of 100 '' @ pronoun @ '' like you, about ''
           @ String_of_rounded roundedRisk
           @ '' will have a heart attack or stroke in the next 10 years.'')"

section \<open>The result of calculateSCORE2Risk\<close>

text \<open>Lines 95 to 113: the returned object. Only the returned percentage is rounded.\<close>

definition calculateSCORE2Risk :: "Parameters \<Rightarrow> RiskResult" where
  "calculateSCORE2Risk params =
     (let riskPercentage = clampedRiskPercentage params;
          riskCategory = categorizeRisk riskPercentage (age params);
          heartAge = calculateHeartAge params riskPercentage;
          recommendations = generateRecommendations params riskCategory;
          interpretation = generateInterpretation riskPercentage (sex params)
      in \<lparr>riskPercentage = num_div (Math_round (num_mul riskPercentage (Num 10))) (Num 10),
          riskCategory = riskCategory,
          heartAge = heartAge,
          interpretation' = interpretation,
          recommendations = recommendations,
          algorithm = (if useScore2OP params then ''SCORE2-OP'' else ''SCORE2'')\<rparr>)"

section \<open>validateSCORE2Inputs\<close>

text \<open>The operator \<^verbatim>\<open>!\<close> on a number and on a string: the empty string is falsy.\<close>

definition not_number :: "number \<Rightarrow> bool" where
  "not_number x = (\<not> truthy x)"

definition not_string :: "string \<Rightarrow> bool" where
  "not_string s = (s = [])"

definition Array_includes :: "string list \<Rightarrow> string \<Rightarrow> bool" where
  "Array_includes xs s = (s \<in> set xs)"

definition validateSCORE2Inputs :: "Parameters \<Rightarrow> string list" where
  "validateSCORE2Inputs params =
     (let errors = [];
          errors =
            (if not_number (age params) \<or> num_lt (age params) (Num 40)
                \<or> num_gt (age params) (Num 100)
             then push errors ''Age must be between 40 and 100 years'' else errors);
          errors =
            (if not_string (sex params) \<or> \<not> Array_includes [''male'', ''female''] (sex params)
             then push errors ''Sex must be specified as male or female'' else errors);
          errors =
            (if not_string (region params)
                \<or> \<not> Array_includes [''low'', ''moderate'', ''high'', ''very-high''] (region params)
             then push errors ''Risk region must be specified'' else errors);
          errors =
            (if not_string (smoking params)
                \<or> \<not> Array_includes [''smoker'', ''non-smoker''] (smoking params)
             then push errors ''Smoking status must be specified'' else errors);
          errors =
            (if not_number (systolicBP params) \<or> num_lt (systolicBP params) (Num 80)
                \<or> num_gt (systolicBP params) (Num 250)
             then push errors ''Systolic blood pressure must be between 80 and 250 mmHg''
             else errors);
          errors =
            (if not_number (totalCholesterol params)
                \<or> num_le (totalCholesterol params) (Num 0)
             then push errors ''Total cholesterol must be specified and greater than 0''
             else errors)
      in errors)"

section \<open>The input constraints and the advice blocks, as the specification names them\<close>

text \<open>
  The six constraints on the required fields. A number is in a range only when it is
  finite; \<^verbatim>\<open>Infinity\<close> is greater than 0.
\<close>

definition in_range :: "real \<Rightarrow> real \<Rightarrow> number \<Rightarrow> bool" where
  "in_range lo hi x = (case x of Num r \<Rightarrow> lo \<le> r \<and> r \<le> hi | _ \<Rightarrow> False)"

definition positive :: "number \<Rightarrow> bool" where
  "positive x = (case x of Num r \<Rightarrow> 0 < r | PosInf \<Rightarrow> True | _ \<Rightarrow> False)"

definition valid_params :: "Parameters \<Rightarrow> bool" where
  "valid_params p =
     (in_range 40 100 (age p)
      \<and> sex p \<in> {''male'', ''female''}
      \<and> region p \<in> {''low'', ''moderate'', ''high'', ''very-high''}
      \<and> smoking p \<in> {''smoker'', ''non-smoker''}
      \<and> in_range 80 250 (systolicBP p)
      \<and> positive (totalCholesterol p))"

text \<open>An HDL value that is absent, or a finite number that is not negative.\<close>

definition hdl_ok :: "Parameters \<Rightarrow> bool" where
  "hdl_ok p =
     (case hdlCholesterol p of
        None \<Rightarrow> True
      | Some h \<Rightarrow> (case h of Num r \<Rightarrow> 0 \<le> r | _ \<Rightarrow> False))"

definition smoking_strings :: "string list" where
  "smoking_strings =
     [''Quit smoking - this is the single most important step to reduce your cardiovascular risk'',
      ''Consider nicotine replacement therapy or consult your doctor about smoking cessation aids'']"

definition bp_high_strings :: "string list" where
  "bp_high_strings =
     [''Discuss blood pressure management with your doctor'',
      ''Reduce salt intake and increase physical activity'',
      ''Consider antihypertensive medication if lifestyle changes are insufficient'']"

definition bp_monitor_strings :: "string list" where
  "bp_monitor_strings =
     [''Monitor blood pressure regularly and maintain a healthy lifestyle'']"

definition cholesterol_strings :: "string list" where
  "cholesterol_strings =
     [''Discuss cholesterol management with your doctor'',
      ''Follow a Mediterranean-style diet rich in fruits, vegetables, and healthy fats'',
      ''Consider statin therapy if dietary changes are insufficient'']"

definition diabetes_strings :: "string list" where
  "diabetes_strings =
     [''Maintain optimal blood glucose control'',
      ''Regular monitoring of HbA1c levels'',
      ''Consider additional cardiovascular protection medications'']"

definition lifestyle_strings :: "string list" where
  "lifestyle_strings =
     [''Engage in regular physical activity (at least 150 minutes of moderate exercise per week)'',
      ''Maintain a healthy weight (BMI 18.5-24.9)'',
      ''Limit alcohol consumption'',
      ''Consider low-dose aspirin therapy (consult your doctor)'']"

definition low_risk_strings :: "string list" where
  "low_risk_strings =
     [''Maintain your current healthy lifestyle'',
      ''Continue regular physical activity and healthy diet'',
      ''Regular health check-ups every 2-3 years'']"

text \<open>The six gates of the recommendation stage, each with the strings it contributes.\<close>

definition gate1 :: "Parameters \<Rightarrow> string list" where
  "gate1 p = (if smoking p = ''smoker'' then smoking_strings else [])"

definition gate2 :: "Parameters \<Rightarrow> string list" where
  "gate2 p =
     (if num_gt (systolicBP p) (Num 140) then bp_high_strings
      else if num_gt (systolicBP p) (Num 130) then bp_monitor_strings else [])"

definition gate3 :: "Parameters \<Rightarrow> string list" where
  "gate3 p = (if num_gt (totalChol p) (Num 5.5) then cholesterol_strings else [])"

definition gate4 :: "Parameters \<Rightarrow> string list" where
  "gate4 p = (if diabetes p = ''yes'' then diabetes_strings else [])"

definition gate5 :: "string \<Rightarrow> string list" where
  "gate5 c = (if c \<in> {''moderate'', ''high'', ''very-high''} then lifestyle_strings else [])"

definition gate6 :: "string \<Rightarrow> string list" where
  "gate6 c = (if c = ''low'' then low_risk_strings else [])"

section \<open>The heart age, as the specification words it\<close>

text \<open>
  The specification obtains the reference percentage by running the stages of the main
  computation, unit conversion included, on the reference parameter set: the input with
  \<^verbatim>\<open>smoking = non-smoker\<close>, \<^verbatim>\<open>systolicBP = 120\<close>, \<^verbatim>\<open>totalCholesterol = 5.0\<close> and
  \<^verbatim>\<open>diabetes = no\<close>.
\<close>

definition heartAge_spec :: "Parameters \<Rightarrow> number" where
  "heartAge_spec p =
     (let riskPct = clampedRiskPercentage p;
          referenceRiskPct = clampedRiskPercentage (referenceParams p);
          ratio = num_div riskPct referenceRiskPct;
          rounded = Math_round (num_add (age p) (num_mul (num_sub ratio (Num 1)) (Num 10)))
      in Math_max (age p) (Math_min (Num 100) rounded))"

text \<open>
  The reference parameter set with its total cholesterol written in the unit of the
  input: 5.0 mmol/L is 193.35 mg/dL.
\<close>

definition referenceProfile :: "Parameters \<Rightarrow> Parameters" where
  "referenceProfile p =
     (referenceParams p)
       \<lparr>totalCholesterol := Num (if cholesterolUnit p = ''mg/dL'' then 5.0 * 38.67 else 5.0)\<rparr>"

section \<open>Example inputs\<close>

text \<open>
  A parameter object as the form builds it when the optional fields are left empty:
  cholesterol in mmol/L, no HDL value, no BMI, and the diabetes choice unset.
\<close>

definition patient :: "real \<Rightarrow> string \<Rightarrow> string \<Rightarrow> string \<Rightarrow> real \<Rightarrow> real \<Rightarrow> Parameters" where
  "patient a s r sm bp chol =
     \<lparr>age = Num a, sex = s, region = r, smoking = sm, systolicBP = Num bp,
      totalCholesterol = Num chol, cholesterolUnit = ''mmol/L'', hdlCholesterol = None,
      diabetes = [], bmi = None\<rparr>"

section \<open>Recommendations\<close>

lemma generateRecommendations_gates:
  "generateRecommendations p c = gate1 p @ gate2 p @ gate3 p @ gate4 p @ gate5 c @ gate6 c"
  by (simp add: generateRecommendations_def Let_def push_def gate1_def gate2_def gate3_def
      gate4_def gate5_def gate6_def totalChol_def smoking_strings_def bp_high_strings_def
      bp_monitor_strings_def cholesterol_strings_def diabetes_strings_def lifestyle_strings_def
      low_risk_strings_def)

lemma categorizeRisk_values:
  "categorizeRisk r a \<in> {''low'', ''moderate'', ''high'', ''very-high''}"
  by (simp add: categorizeRisk_def)

lemma result_recommendations:
  "recommendations (calculateSCORE2Risk p)
     = generateRecommendations p (riskCategory (calculateSCORE2Risk p))"
  by (simp add: calculateSCORE2Risk_def Let_def)

lemma result_category_values:
  "riskCategory (calculateSCORE2Risk p) \<in> {''low'', ''moderate'', ''high'', ''very-high''}"
  using categorizeRisk_values by (simp add: calculateSCORE2Risk_def Let_def)

text \<open>
  C8. The returned list is the concatenation of the six gates' strings in the order
  smoking, blood pressure, cholesterol, diabetes, general lifestyle, low risk, whatever
  the parameters are. So a smoker always gets the two smoking strings and a patient with
  diabetes the three diabetes strings, and of the two category gates exactly one
  contributes, since the category is one of its four values.
\<close>

theorem recommendations_gate_order:
  "recommendations (calculateSCORE2Risk p)
     = gate1 p @ gate2 p @ gate3 p @ gate4 p
       @ gate5 (riskCategory (calculateSCORE2Risk p))
       @ gate6 (riskCategory (calculateSCORE2Risk p))
   \<and> (smoking p = ''smoker'' \<longrightarrow>
        gate1 p = smoking_strings
        \<and> set smoking_strings \<subseteq> set (recommendations (calculateSCORE2Risk p)))
   \<and> (diabetes p = ''yes'' \<longrightarrow>
        gate4 p = diabetes_strings
        \<and> set diabetes_strings \<subseteq> set (recommendations (calculateSCORE2Risk p)))
   \<and> (gate5 (riskCategory (calculateSCORE2Risk p)) = [])
        \<noteq> (gate6 (riskCategory (calculateSCORE2Risk p)) = [])"
proof -
  let ?c = "riskCategory (calculateSCORE2Risk p)"
  have eq: "recommendations (calculateSCORE2Risk p)
              = gate1 p @ gate2 p @ gate3 p @ gate4 p @ gate5 ?c @ gate6 ?c"
    by (simp only: result_recommendations generateRecommendations_gates)
  have excl: "(gate5 ?c = []) \<noteq> (gate6 ?c = [])"
    using result_category_values[of p]
    by (auto simp add: gate5_def gate6_def lifestyle_strings_def low_risk_strings_def)
  have sm: "smoking p = ''smoker'' \<longrightarrow> gate1 p = smoking_strings"
    by (simp add: gate1_def)
  have di: "diabetes p = ''yes'' \<longrightarrow> gate4 p = diabetes_strings"
    by (simp add: gate4_def)
  from eq excl sm di show ?thesis by auto
qed

theorem recommendations_gate_order_witness:
  "set smoking_strings
     \<subseteq> set (recommendations (calculateSCORE2Risk
               ((patient 62 ''male'' ''high'' ''smoker'' 150 6)\<lparr>diabetes := ''yes''\<rparr>)))
   \<and> set diabetes_strings
     \<subseteq> set (recommendations (calculateSCORE2Risk
               ((patient 62 ''male'' ''high'' ''smoker'' 150 6)\<lparr>diabetes := ''yes''\<rparr>)))"
proof -
  let ?p = "(patient 62 ''male'' ''high'' ''smoker'' 150 6)\<lparr>diabetes := ''yes''\<rparr>"
  have s: "smoking ?p = ''smoker''" and d: "diabetes ?p = ''yes''"
    by (simp_all add: patient_def)
  from recommendations_gate_order[of ?p] s d show ?thesis
    by blast
qed

section \<open>Validation\<close>

lemma not_in_range:
  "0 < lo \<Longrightarrow> (not_number x \<or> num_lt x (Num lo) \<or> num_gt x (Num hi)) = (\<not> in_range lo hi x)"
  by (cases x) (auto simp: not_number_def num_gt_def in_range_def)

lemma not_positive: "(not_number x \<or> num_le x (Num 0)) = (\<not> positive x)"
  by (cases x) (auto simp: not_number_def positive_def)

lemma not_included: "(not_string s \<or> \<not> Array_includes xs s) = (s \<notin> set xs \<or> s = [])"
  by (auto simp: not_string_def Array_includes_def)

lemma validateSCORE2Inputs_messages:
  "validateSCORE2Inputs p =
     (if in_range 40 100 (age p) then [] else [''Age must be between 40 and 100 years''])
     @ (if sex p \<in> {''male'', ''female''} then []
        else [''Sex must be specified as male or female''])
     @ (if region p \<in> {''low'', ''moderate'', ''high'', ''very-high''} then []
        else [''Risk region must be specified''])
     @ (if smoking p \<in> {''smoker'', ''non-smoker''} then []
        else [''Smoking status must be specified''])
     @ (if in_range 80 250 (systolicBP p) then []
        else [''Systolic blood pressure must be between 80 and 250 mmHg''])
     @ (if positive (totalCholesterol p) then []
        else [''Total cholesterol must be specified and greater than 0''])"
  unfolding validateSCORE2Inputs_def Let_def push_def
  by (simp add: not_in_range not_positive not_included)

text \<open>
  C9. The validator returns, in the order of its six checks, one message for each
  constraint that the parameters violate: a violated constraint does not stop the later
  checks. The list is empty exactly when the six constraints hold.
\<close>

theorem validateSCORE2Inputs_collects:
  "validateSCORE2Inputs p =
     (if in_range 40 100 (age p) then [] else [''Age must be between 40 and 100 years''])
     @ (if sex p \<in> {''male'', ''female''} then []
        else [''Sex must be specified as male or female''])
     @ (if region p \<in> {''low'', ''moderate'', ''high'', ''very-high''} then []
        else [''Risk region must be specified''])
     @ (if smoking p \<in> {''smoker'', ''non-smoker''} then []
        else [''Smoking status must be specified''])
     @ (if in_range 80 250 (systolicBP p) then []
        else [''Systolic blood pressure must be between 80 and 250 mmHg''])
     @ (if positive (totalCholesterol p) then []
        else [''Total cholesterol must be specified and greater than 0''])
   \<and> (validateSCORE2Inputs p = [] \<longleftrightarrow> valid_params p)"
proof -
  have "validateSCORE2Inputs p = [] \<longleftrightarrow> valid_params p"
    by (simp only: validateSCORE2Inputs_messages valid_params_def) simp
  then show ?thesis
    using validateSCORE2Inputs_messages[of p] by simp
qed

theorem validateSCORE2Inputs_collects_witness:
  "validateSCORE2Inputs (patient 55 ''male'' ''moderate'' ''non-smoker'' 130 5) = []
   \<and> validateSCORE2Inputs
       \<lparr>age = Num 39, sex = [], region = ''north'', smoking = [], systolicBP = NaN,
        totalCholesterol = Num 0, cholesterolUnit = ''mmol/L'', hdlCholesterol = None,
        diabetes = [], bmi = None\<rparr>
     = [''Age must be between 40 and 100 years'',
        ''Sex must be specified as male or female'',
        ''Risk region must be specified'',
        ''Smoking status must be specified'',
        ''Systolic blood pressure must be between 80 and 250 mmHg'',
        ''Total cholesterol must be specified and greater than 0'']"
  using validateSCORE2Inputs_collects[of "patient 55 ''male'' ''moderate'' ''non-smoker'' 130 5"]
        validateSCORE2Inputs_collects
          [of "\<lparr>age = Num 39, sex = [], region = ''north'', smoking = [], systolicBP = NaN,
                totalCholesterol = Num 0, cholesterolUnit = ''mmol/L'', hdlCholesterol = None,
                diabetes = [], bmi = None\<rparr>"]
  by (simp add: patient_def in_range_def positive_def)

section \<open>An HDL value of zero\<close>

lemma useScore2OP_hdl [simp]: "useScore2OP (p\<lparr>hdlCholesterol := h\<rparr>) = useScore2OP p"
  by (simp add: useScore2OP_def)

lemma totalChol_hdl [simp]: "totalChol (p\<lparr>hdlCholesterol := h\<rparr>) = totalChol p"
  by (simp add: totalChol_def)

lemma hdlChol_absent: "hdlChol (p\<lparr>hdlCholesterol := None\<rparr>) = None"
  by (simp add: hdlChol_def or_null_def)

lemma referenceParams_fields [simp]:
  "age (referenceParams p) = age p"
  "sex (referenceParams p) = sex p"
  "region (referenceParams p) = region p"
  "hdlChol (referenceParams p) = hdlChol p"
  "useScore2OP (referenceParams p) = useScore2OP p"
  by (simp_all add: hdlChol_def referenceParams_def useScore2OP_def)

lemma riskScore_hdl:
  "hdlChol (p\<lparr>hdlCholesterol := h\<rparr>) = hdlChol p \<Longrightarrow>
   riskScore (p\<lparr>hdlCholesterol := h\<rparr>) = riskScore p"
  by (simp add: riskScore_def)

lemma referenceRiskPercentage_hdl:
  "hdlChol (p\<lparr>hdlCholesterol := h\<rparr>) = hdlChol p \<Longrightarrow>
   referenceRiskPercentage (p\<lparr>hdlCholesterol := h\<rparr>) = referenceRiskPercentage p"
  by (simp add: referenceRiskPercentage_def)

lemma calculateSCORE2Risk_hdl:
  assumes "hdlChol (p\<lparr>hdlCholesterol := h\<rparr>) = hdlChol p"
  shows "calculateSCORE2Risk (p\<lparr>hdlCholesterol := h\<rparr>) = calculateSCORE2Risk p"
proof -
  have c: "clampedRiskPercentage (p\<lparr>hdlCholesterol := h\<rparr>) = clampedRiskPercentage p"
    by (simp add: clampedRiskPercentage_def riskScore_hdl[OF assms])
  have g: "\<And>c. generateRecommendations (p\<lparr>hdlCholesterol := h\<rparr>) c
                 = generateRecommendations p c"
    by (simp add: generateRecommendations_def)
  show ?thesis
    by (simp add: calculateSCORE2Risk_def c calculateHeartAge_def
        referenceRiskPercentage_hdl[OF assms] g)
qed

text \<open>
  C10. When \<^verbatim>\<open>hdlCholesterol\<close> is absent, \<^verbatim>\<open>null\<close> or 0, the variable \<^verbatim>\<open>hdlChol\<close> is
  \<^verbatim>\<open>null\<close> in the main computation and in the reference computation, so the HDL branch,
  the only place where the logarithm gets the HDL value, is not taken; the score, the
  reference percentage and the whole result are those of the same parameters without an
  HDL value.
\<close>

theorem hdl_zero_omitted:
  assumes "hdlCholesterol p = None \<or> hdlCholesterol p = Some (Num 0)"
  shows "hdlChol p = None \<and> hdlChol (referenceParams p) = None
         \<and> riskScore p = riskScore (p\<lparr>hdlCholesterol := None\<rparr>)
         \<and> referenceRiskPercentage p = referenceRiskPercentage (p\<lparr>hdlCholesterol := None\<rparr>)
         \<and> calculateSCORE2Risk p = calculateSCORE2Risk (p\<lparr>hdlCholesterol := None\<rparr>)"
proof -
  have h: "hdlChol p = None"
    using assms by (auto simp: hdlChol_def or_null_def)
  then have e: "hdlChol (p\<lparr>hdlCholesterol := None\<rparr>) = hdlChol p"
    by (simp add: hdlChol_absent)
  from h riskScore_hdl[OF e] referenceRiskPercentage_hdl[OF e] calculateSCORE2Risk_hdl[OF e]
  show ?thesis by simp
qed

theorem hdl_zero_omitted_witness:
  "calculateSCORE2Risk
     ((patient 55 ''male'' ''moderate'' ''smoker'' 130 5)\<lparr>hdlCholesterol := Some (Num 0)\<rparr>)
   = calculateSCORE2Risk (patient 55 ''male'' ''moderate'' ''smoker'' 130 5)"
  using hdl_zero_omitted
          [of "(patient 55 ''male'' ''moderate'' ''smoker'' 130 5)\<lparr>hdlCholesterol := Some (Num 0)\<rparr>"]
  by (simp add: patient_def)

section \<open>The percentage on numbers\<close>

lemma percentage_Num [simp]:
  "percentage (Num s) (Num b) = Num ((1 - exp (- exp s * b)) * 100)"
  by (simp add: percentage_def num_sub_def)

lemma percentage_PosInf: "0 < b \<Longrightarrow> percentage PosInf (Num b) = Num 100"
  by (simp add: percentage_def num_sub_def signed_inf_def)

lemma percentage_NegInf: "percentage NegInf (Num b) = Num 0"
  by (simp add: percentage_def num_sub_def)

lemma percentage_not_NaN: "s \<noteq> NaN \<Longrightarrow> 0 < b \<Longrightarrow> percentage s (Num b) \<noteq> NaN"
  by (cases s) (simp_all add: percentage_PosInf percentage_NegInf)

lemma bounds_Num [simp]: "bounds (Num x) = Num (max (1/10) (min 50 x))"
  by (simp add: bounds_def Math_min_def Math_max_def max_def min_def)

lemma bounds_NaN [simp]: "bounds NaN = NaN"
  by (simp add: bounds_def Math_min_def Math_max_def)

lemma bounds_PosInf [simp]: "bounds PosInf = Num 50"
  by (simp add: bounds_def Math_min_def Math_max_def)

lemma bounds_NegInf [simp]: "bounds NegInf = Num (1/10)"
  by (simp add: bounds_def Math_min_def Math_max_def)

lemma bounds_range:
  assumes "x \<noteq> NaN"
  shows "\<exists>r. bounds x = Num r \<and> 1/10 \<le> r \<and> r \<le> 50"
proof (cases x)
  case (Num v)
  have "1/10 \<le> max (1/10) (min 50 v)" "max (1/10) (min 50 v) \<le> 50"
    by (simp_all add: max_def min_def)
  with Num show ?thesis by (intro exI[of _ "max (1/10) (min 50 v)"]) simp
next
  case PosInf
  then show ?thesis by (intro exI[of _ 50]) simp
next
  case NegInf
  then show ?thesis by (intro exI[of _ "1/10"]) simp
next
  case NaN
  with assms show ?thesis by simp
qed

lemma regionalFactor_values [simp]:
  "regionalFactor ''low'' = Num 0.7" "regionalFactor ''moderate'' = Num 1"
  "regionalFactor ''high'' = Num 1.4" "regionalFactor ''very-high'' = Num 1.8"
  by (simp_all add: regionalFactor_def regionalFactors_def)

lemma regionalFactor_valid:
  "r \<in> {''low'', ''moderate'', ''high'', ''very-high''} \<Longrightarrow>
   regionalFactor r = Num (the (regionalFactors r)) \<and> 0 < the (regionalFactors r)"
  by (auto simp: regionalFactor_def regionalFactors_def)

lemma hdl_ok_hdlChol:
  assumes "hdl_ok p"
  shows "hdlChol p = None \<or> (\<exists>h. hdlChol p = Some (Num h) \<and> 0 < h)"
proof (cases "hdlCholesterol p")
  case None
  then show ?thesis by (simp add: hdlChol_def or_null_def)
next
  case (Some v)
  with assms obtain r where r: "v = Num r" "0 \<le> r"
    by (auto simp: hdl_ok_def split: number.splits)
  show ?thesis
  proof (cases "r = 0")
    case True
    with Some r show ?thesis by (simp add: hdlChol_def or_null_def)
  next
    case False
    with r have "0 < r" by simp
    then have "0 < r / 38.67" by simp
    show ?thesis
    proof (cases "cholesterolUnit p = ''mg/dL''")
      case True
      with Some r False have "hdlChol p = Some (Num (r / 38.67))"
        by (simp add: hdlChol_def or_null_def)
      with \<open>0 < r / 38.67\<close> show ?thesis by blast
    next
      case no: False
      with Some r False have "hdlChol p = Some (Num r)"
        by (simp add: hdlChol_def or_null_def)
      with \<open>0 < r\<close> show ?thesis by blast
    qed
  qed
qed


lemma riskScore_Num:
  assumes "age p = Num a" "0 < a" "systolicBP p = Num b" "0 < b"
    and "totalChol p = Num c" "0 < c"
    and "hdlChol p = None \<or> (\<exists>h. hdlChol p = Some (Num h) \<and> 0 < h)"
    and "regionalFactor (region p) = Num f"
  shows "riskScore p =
     Num ((ln (a / 40) * (if sex p = ''male'' then 0.8 else 0.7)
           + (if sex p = ''male'' then 0.5 else 0)
           + (if smoking p = ''smoker'' then 0.6 else 0)
           + ln (b / 120) * 0.4 + ln (c / 5) * 0.3
           + (case hdlChol p of Some (Num h) \<Rightarrow> - ln (h / 1.3) * 0.2 | _ \<Rightarrow> 0)
           + (if diabetes p = ''yes'' then 0.4 else 0))
          * f * (if 70 \<le> a then 1.2 else 1))"
  using assms by (auto simp: riskScore_def useScore2OP_def num_ge_def)

lemma valid_params_fields:
  assumes "valid_params p"
  obtains a b where "age p = Num a" "40 \<le> a" "a \<le> 100"
    "systolicBP p = Num b" "80 \<le> b" "b \<le> 250"
proof -
  from assms have "in_range 40 100 (age p)" "in_range 80 250 (systolicBP p)"
    by (simp_all add: valid_params_def)
  then show ?thesis
    by (cases "age p"; cases "systolicBP p") (auto simp: in_range_def intro: that)
qed

lemma valid_params_chol:
  assumes "valid_params p"
  shows "(\<exists>c. totalChol p = Num c \<and> 0 < c) \<or> totalChol p = PosInf"
proof -
  from assms have "positive (totalCholesterol p)" by (simp add: valid_params_def)
  then consider c where "totalCholesterol p = Num c" "0 < c" | "totalCholesterol p = PosInf"
    by (cases "totalCholesterol p") (auto simp: positive_def)
  then show ?thesis
  proof cases
    case 1
    then have "0 < c / 38.67" by simp
    show ?thesis
    proof (cases "cholesterolUnit p = ''mg/dL''")
      case True
      with 1 have "totalChol p = Num (c / 38.67)" by (simp add: totalChol_def)
      with \<open>0 < c / 38.67\<close> show ?thesis by blast
    next
      case False
      with 1 have "totalChol p = Num c" by (simp add: totalChol_def)
      with 1 show ?thesis by blast
    qed
  next
    case 2
    then show ?thesis by (simp add: totalChol_def)
  qed
qed

lemma riskScore_PosInf:
  assumes "age p = Num a" "0 < a" "systolicBP p = Num b" "0 < b"
    and "totalChol p = PosInf"
    and "hdlChol p = None \<or> (\<exists>h. hdlChol p = Some (Num h) \<and> 0 < h)"
    and "regionalFactor (region p) = Num f" "0 < f"
  shows "riskScore p = PosInf"
  using assms by (auto simp: riskScore_def useScore2OP_def num_ge_def signed_inf_def)

lemma riskScore_not_NaN:
  assumes "valid_params p" "hdl_ok p"
  shows "riskScore p \<noteq> NaN"
proof -
  from assms(1) obtain a b where ab: "age p = Num a" "40 \<le> a" "systolicBP p = Num b" "80 \<le> b"
    by (rule valid_params_fields)
  then have pos: "0 < a" "0 < b" by simp_all
  from assms(1) have "region p \<in> {''low'', ''moderate'', ''high'', ''very-high''}"
    by (simp add: valid_params_def)
  from regionalFactor_valid[OF this] obtain f where f: "regionalFactor (region p) = Num f" "0 < f"
    by blast
  note h = hdl_ok_hdlChol[OF assms(2)]
  from valid_params_chol[OF assms(1)] show ?thesis
  proof
    assume "\<exists>c. totalChol p = Num c \<and> 0 < c"
    then obtain c where c: "totalChol p = Num c" "0 < c" by blast
    show ?thesis
      by (simp add: riskScore_Num[OF ab(1) pos(1) ab(3) pos(2) c h f(1)])
  next
    assume "totalChol p = PosInf"
    then show ?thesis
      by (simp add: riskScore_PosInf[OF ab(1) pos(1) ab(3) pos(2) _ h f])
  qed
qed

lemma clamped_range:
  assumes "valid_params p" "hdl_ok p"
  shows "\<exists>c. clampedRiskPercentage p = Num c \<and> 1/10 \<le> c \<and> c \<le> 50"
proof -
  have "percentage (riskScore p) (Num (if useScore2OP p then 0.15 else 0.08)) \<noteq> NaN"
    by (rule percentage_not_NaN[OF riskScore_not_NaN[OF assms]]) simp
  from bounds_range[OF this] show ?thesis
    by (simp add: clampedRiskPercentage_def)
qed

lemma result_riskPercentage:
  "riskPercentage (calculateSCORE2Risk p)
     = num_div (Math_round (num_mul (clampedRiskPercentage p) (Num 10))) (Num 10)"
  by (simp add: calculateSCORE2Risk_def Let_def)



section \<open>Bounds of the returned percentage\<close>






section \<open>Bounds on the exponential and the logarithm\<close>

lemma exp_poly4: "1 + x + x^2 / 2 + x^3 / 6 \<le> exp (x::real)"
proof -
  obtain t where "exp x = (\<Sum>m<4. x ^ m / fact m) + exp t / fact 4 * x ^ 4"
    using Maclaurin_exp_le[of x 4] by blast
  moreover have "0 \<le> exp t / fact 4 * x ^ 4"
    by (intro mult_nonneg_nonneg divide_nonneg_nonneg) simp_all
  moreover have "(\<Sum>m<4. x ^ m / fact m) = 1 + x + x^2 / 2 + x^3 / 6"
    by (simp add: eval_nat_numeral lessThan_Suc)
  ultimately show ?thesis by linarith
qed

lemma exp_poly6: "1 + x + x^2 / 2 + x^3 / 6 + x^4 / 24 + x^5 / 120 \<le> exp (x::real)"
proof -
  obtain t where "exp x = (\<Sum>m<6. x ^ m / fact m) + exp t / fact 6 * x ^ 6"
    using Maclaurin_exp_le[of x 6] by blast
  moreover have "0 \<le> exp t / fact 6 * x ^ 6"
    by (intro mult_nonneg_nonneg divide_nonneg_nonneg) simp_all
  moreover have "(\<Sum>m<6. x ^ m / fact m) = 1 + x + x^2 / 2 + x^3 / 6 + x^4 / 24 + x^5 / 120"
    by (simp add: eval_nat_numeral lessThan_Suc)
  ultimately show ?thesis by linarith
qed

lemma exp_upper: "0 < q \<Longrightarrow> q \<le> exp (- x) \<Longrightarrow> exp (x::real) \<le> 1 / q"
proof -
  assume q: "0 < q" "q \<le> exp (- x)"
  have "exp x = 1 / exp (- x)" by (simp add: exp_minus field_simps)
  also have "\<dots> \<le> 1 / q" using q by (intro divide_left_mono) simp_all
  finally show ?thesis .
qed

lemma ln_lower: "0 < x \<Longrightarrow> exp y \<le> x \<Longrightarrow> y \<le> ln (x::real)"
  by (simp add: ln_ge_iff)

lemma ln_upper: "0 < x \<Longrightarrow> x \<le> exp y \<Longrightarrow> ln (x::real) \<le> y"
  by (metis exp_ln exp_le_cancel_iff)

lemma ln2_lower: "(6/10::real) \<le> ln 2"
proof -
  have "(272/500::real) \<le> exp (- (6/10))"
    using exp_poly4[of "- (6/10)"] by (simp add: power2_eq_square power3_eq_cube)
  from exp_upper[OF _ this] have "exp (6/10::real) \<le> 2" by simp
  then show ?thesis by (intro ln_lower) simp_all
qed

lemma ln2_upper: "ln 2 \<le> (7/10::real)"
proof -
  have "(2::real) \<le> exp (7/10)"
    using exp_poly4[of "7/10"] by (simp add: power2_eq_square power3_eq_cube)
  then show ?thesis by (intro ln_upper) simp_all
qed

lemma raw_upper: "0 \<le> y \<Longrightarrow> (1 - exp (- y)) * 100 \<le> y * (100::real)"
  using exp_ge_add_one_self[of "- y"] by simp

lemma raw_lower:
  assumes "0 \<le> y0" "y0 \<le> y"
  shows "(1 - 1 / (1 + y0)) * 100 \<le> (1 - exp (- y)) * (100::real)"
proof -
  have "exp (- y) \<le> exp (- y0)" using assms by simp
  also have "exp (- y0) \<le> 1 / (1 + y0)"
    by (rule exp_upper) (use assms in simp_all)
  finally show ?thesis by simp
qed

lemma clamp_ge: "(1/10::real) \<le> l \<Longrightarrow> l \<le> 50 \<Longrightarrow> l \<le> x \<Longrightarrow> l \<le> max (1/10) (min 50 x)"
  by (simp add: max_def min_def)

lemma clamp_le: "(1/10::real) \<le> u \<Longrightarrow> x \<le> u \<Longrightarrow> max (1/10) (min 50 x) \<le> u"
  by (simp add: max_def min_def)

lemma clamped_patient:
  "riskScore p = Num s \<Longrightarrow> \<not> useScore2OP p \<Longrightarrow>
   clampedRiskPercentage p = Num (max (1/10) (min 50 ((1 - exp (- (exp s * (8/100)))) * 100)))"
  by (simp add: clampedRiskPercentage_def)

lemma clamped_patient_OP:
  "riskScore p = Num s \<Longrightarrow> useScore2OP p \<Longrightarrow>
   clampedRiskPercentage p = Num (max (1/10) (min 50 ((1 - exp (- (exp s * (15/100)))) * 100)))"
  by (simp add: clampedRiskPercentage_def)

lemma result_Num:
  "clampedRiskPercentage p = Num c \<Longrightarrow>
   riskPercentage (calculateSCORE2Risk p) = Num (of_int \<lfloor>c * 10 + 1/2\<rfloor> / 10)"
  by (simp add: result_riskPercentage)


section \<open>The regional factor\<close>

text \<open>
  C2 fails on the code. The regional factor multiplies the accumulated score, and a
  score below zero (here a woman of 40 who does not smoke, blood pressure 120, total
  cholesterol 2.5 mmol/L: the score is \<open>0.3 ln (1/2)\<close>) gets smaller when the factor
  grows. The percentage returned for the very high risk region is below the one returned
  for the low risk region (at most 5.9 against at least 6.0).
\<close>

theorem region_order_violated:
  "num_lt (riskPercentage (calculateSCORE2Risk (patient 40 ''female'' ''very-high'' ''non-smoker'' 120 2.5)))
          (riskPercentage (calculateSCORE2Risk (patient 40 ''female'' ''low'' ''non-smoker'' 120 2.5)))"
proof -
  let ?vh = "patient 40 ''female'' ''very-high'' ''non-smoker'' 120 2.5"
  let ?lo = "patient 40 ''female'' ''low'' ''non-smoker'' 120 2.5"
  define tl :: real where "tl = - (21/100) * ln 2"
  define tv :: real where "tv = - (54/100) * ln 2"
  define cl :: real where "cl = max (1/10) (min 50 ((1 - exp (- (exp tl * (8/100)))) * 100))"
  define cv :: real where "cv = max (1/10) (min 50 ((1 - exp (- (exp tv * (8/100)))) * 100))"
  have op: "\<not> useScore2OP ?vh" "\<not> useScore2OP ?lo"
    by (simp_all add: useScore2OP_def num_ge_def patient_def)
  have "riskScore ?lo = Num tl"
    by (simp add: riskScore_def patient_def totalChol_def hdlChol_def or_null_def
        useScore2OP_def num_ge_def ln_div tl_def)
  from clamped_patient[OF this op(2)] have lo: "clampedRiskPercentage ?lo = Num cl"
    by (simp only: cl_def)
  have "riskScore ?vh = Num tv"
    by (simp add: riskScore_def patient_def totalChol_def hdlChol_def or_null_def
        useScore2OP_def num_ge_def ln_div tv_def)
  from clamped_patient[OF this op(1)] have vh: "clampedRiskPercentage ?vh = Num cv"
    by (simp only: cv_def)
  \<comment> \<open>the low region: at least 6\<close>
  have "- (147/1000) \<le> tl" using ln2_upper by (simp add: tl_def)
  then have "exp (- (147/1000)) \<le> exp tl" by simp
  moreover have "(853/1000::real) \<le> exp (- (147/1000))"
    using exp_ge_add_one_self[of "- (147/1000::real)"] by simp
  ultimately have "(853/1000) * (8/100) \<le> exp tl * (8/100)" by linarith
  from raw_lower[OF _ this] have "6 \<le> (1 - exp (- (exp tl * (8/100)))) * 100" by simp
  then have cl6: "6 \<le> cl" unfolding cl_def by (intro clamp_ge) simp_all
  \<comment> \<open>the very high region: below 5.95\<close>
  have "tv \<le> - (324/1000)" using ln2_lower by (simp add: tv_def)
  then have "exp tv \<le> exp (- (324/1000))" by simp
  moreover have "(138/100::real) \<le> exp (324/1000)"
    using exp_poly4[of "324/1000"] by (simp add: power2_eq_square power3_eq_cube)
  then have "exp (- (324/1000)) \<le> (100/138::real)"
    using exp_upper[of "138/100" "- (324/1000)"] by simp
  ultimately have "exp tv * (8/100) \<le> (100/138) * (8/100)" by linarith
  moreover have "(1 - exp (- (exp tv * (8/100)))) * 100 \<le> exp tv * (8/100) * 100"
    by (rule raw_upper) simp
  ultimately have "(1 - exp (- (exp tv * (8/100)))) * 100 \<le> 59/10" by linarith
  then have cv59: "cv \<le> 59/10" unfolding cv_def by (intro clamp_le) simp_all
  have "\<lfloor>cv * 10 + 1/2\<rfloor> < (60::int)" using cv59 by (simp add: floor_less_iff)
  moreover have "(60::int) \<le> \<lfloor>cl * 10 + 1/2\<rfloor>" using cl6 by (simp add: le_floor_iff)
  ultimately have "\<lfloor>cv * 10 + 1/2\<rfloor> < \<lfloor>cl * 10 + 1/2\<rfloor>" by (rule less_le_trans)
  then show ?thesis
    unfolding result_Num[OF lo] result_Num[OF vh] by simp
qed

section \<open>Smoking\<close>

lemma raw_mono:
  fixes s s' b :: real
  assumes "s' \<le> s" "0 \<le> b"
  shows "(1 - exp (- (exp s' * b))) * 100 \<le> (1 - exp (- (exp s * b))) * 100"
proof -
  have "exp s' * b \<le> exp s * b" using assms by (intro mult_right_mono) simp_all
  then show ?thesis by simp
qed

lemma clamp_mono: "(x::real) \<le> y \<Longrightarrow> max (1/10) (min 50 x) \<le> max (1/10) (min 50 y)"
  by (simp add: max_def min_def)

lemma round1_mono:
  "(c::real) \<le> d \<Longrightarrow> of_int \<lfloor>c * 10 + 1/2\<rfloor> / (10::real) \<le> of_int \<lfloor>d * 10 + 1/2\<rfloor> / 10"
proof -
  assume "c \<le> d"
  then have "\<lfloor>c * 10 + 1/2\<rfloor> \<le> \<lfloor>d * 10 + 1/2\<rfloor>" by (intro floor_mono) simp
  then have "(of_int \<lfloor>c * 10 + 1/2\<rfloor> :: real) \<le> of_int \<lfloor>d * 10 + 1/2\<rfloor>" by linarith
  then show ?thesis by (simp add: divide_right_mono)
qed

lemma clamped_Num:
  "riskScore p = Num s \<Longrightarrow>
   clampedRiskPercentage p =
     Num (max (1/10) (min 50 ((1 - exp (- (exp s * (if useScore2OP p then 15/100 else 8/100)))) * 100)))"
  by (simp add: clampedRiskPercentage_def)

lemma result_mono:
  assumes "riskScore q = Num s'" "riskScore p = Num s" "s' \<le> s" "useScore2OP q = useScore2OP p"
  shows "num_le (riskPercentage (calculateSCORE2Risk q)) (riskPercentage (calculateSCORE2Risk p))"
proof -
  define b :: real where "b = (if useScore2OP p then 15/100 else 8/100)"
  have b: "0 \<le> b" by (simp add: b_def)
  have cq: "clampedRiskPercentage q = Num (max (1/10) (min 50 ((1 - exp (- (exp s' * b))) * 100)))"
    using clamped_Num[OF assms(1)] assms(4) by (simp only: b_def)
  have cp: "clampedRiskPercentage p = Num (max (1/10) (min 50 ((1 - exp (- (exp s * b))) * 100)))"
    using clamped_Num[OF assms(2)] by (simp only: b_def)
  show ?thesis
    unfolding result_Num[OF cq] result_Num[OF cp] num_le.simps
    by (intro round1_mono clamp_mono raw_mono assms(3) b)
qed

lemma result_PosInf:
  assumes "riskScore p = PosInf"
  shows "riskPercentage (calculateSCORE2Risk p) = Num 50"
proof -
  have "clampedRiskPercentage p = Num 50"
    by (simp add: clampedRiskPercentage_def assms percentage_PosInf)
  from result_Num[OF this] show ?thesis by simp
qed

lemma non_smoker_fields [simp]:
  "age (p\<lparr>smoking := x\<rparr>) = age p" "systolicBP (p\<lparr>smoking := x\<rparr>) = systolicBP p"
  "totalChol (p\<lparr>smoking := x\<rparr>) = totalChol p" "hdlChol (p\<lparr>smoking := x\<rparr>) = hdlChol p"
  "useScore2OP (p\<lparr>smoking := x\<rparr>) = useScore2OP p"
  by (simp_all add: totalChol_def hdlChol_def useScore2OP_def)








section \<open>The heart age\<close>

lemma referenceProfile_fields [simp]:
  "age (referenceProfile p) = age p"
  "sex (referenceProfile p) = sex p"
  "region (referenceProfile p) = region p"
  "smoking (referenceProfile p) = ''non-smoker''"
  "diabetes (referenceProfile p) = ''no''"
  "systolicBP (referenceProfile p) = Num 120"
  "hdlCholesterol (referenceProfile p) = hdlCholesterol p"
  "hdlChol (referenceProfile p) = hdlChol p"
  "useScore2OP (referenceProfile p) = useScore2OP p"
  "totalChol (referenceProfile p) = Num 5"
  by (simp_all add: referenceProfile_def referenceParams_def hdlChol_def useScore2OP_def
      totalChol_def)

lemma reference_is_profile:
  "referenceRiskPercentage p = clampedRiskPercentage (referenceProfile p)"
  by (simp add: referenceRiskPercentage_def clampedRiskPercentage_def riskScore_def Let_def
      split: option.split)

lemma referenceProfile_valid:
  "valid_params p \<Longrightarrow> valid_params (referenceProfile p)"
  by (simp add: valid_params_def in_range_def positive_def referenceProfile_def referenceParams_def)

lemma referenceProfile_hdl_ok: "hdl_ok p \<Longrightarrow> hdl_ok (referenceProfile p)"
  by (simp add: hdl_ok_def)

lemma result_heartAge:
  "heartAge (calculateSCORE2Risk p) = calculateHeartAge p (clampedRiskPercentage p)"
  by (simp add: calculateSCORE2Risk_def Let_def)

lemma heartAge_clamp:
  assumes "a \<le> 100"
  shows "\<exists>h. Math_max (Num a) (Math_min (Num 100) (Math_round (Num x))) = Num h \<and> a \<le> h \<and> h \<le> 100"
  using assms by (simp add: Math_max_def Math_min_def)


text \<open>
  C5, as the code has it. For parameters that satisfy the six constraints, with an HDL
  value that is absent or a finite number that is not negative: the reference percentage
  is the clamped percentage of the reference profile whose total cholesterol is
  5.0 mmol/L whatever the unit of the input (193.35 when the unit is mg/dL); the heart
  age is \<open>round (age + (ratio - 1) * 10)\<close> clamped to \<open>[age, 100]\<close>, the ratio being the
  clamped, unrounded percentage over that reference; and it lies between the age and 100.
\<close>

theorem heartAge_formula:
  assumes "valid_params p" "hdl_ok p"
  shows "referenceRiskPercentage p = clampedRiskPercentage (referenceProfile p)
     \<and> heartAge (calculateSCORE2Risk p)
         = Math_max (age p) (Math_min (Num 100)
             (Math_round (num_add (age p)
                (num_mul (num_sub (num_div (clampedRiskPercentage p)
                                           (clampedRiskPercentage (referenceProfile p)))
                                  (Num 1))
                         (Num 10)))))
     \<and> num_le (age p) (heartAge (calculateSCORE2Risk p))
     \<and> num_le (heartAge (calculateSCORE2Risk p)) (Num 100)"
proof -
  have f: "heartAge (calculateSCORE2Risk p)
         = Math_max (age p) (Math_min (Num 100)
             (Math_round (num_add (age p)
                (num_mul (num_sub (num_div (clampedRiskPercentage p)
                                           (clampedRiskPercentage (referenceProfile p)))
                                  (Num 1))
                         (Num 10)))))"
    by (simp add: result_heartAge calculateHeartAge_def reference_is_profile)
  from assms(1) obtain a b where a: "age p = Num a" "40 \<le> a" "a \<le> 100"
    by (rule valid_params_fields)
  from clamped_range[OF assms] obtain c where c: "clampedRiskPercentage p = Num c" by blast
  from clamped_range[OF referenceProfile_valid[OF assms(1)] referenceProfile_hdl_ok[OF assms(2)]]
  obtain r where r: "clampedRiskPercentage (referenceProfile p) = Num r" "1/10 \<le> r" by blast
  then have "r \<noteq> 0" by auto
  with heartAge_clamp[OF a(3), of "a + (c / r - 1) * 10"] a c r f
  have "\<exists>h. heartAge (calculateSCORE2Risk p) = Num h \<and> a \<le> h \<and> h \<le> 100"
    by (simp add: num_sub_def)
  with a f show ?thesis by (auto simp: reference_is_profile)
qed

lemma exp_3_le: "exp (3::real) \<le> 27"
proof -
  have "exp (3::real) = exp 1 ^ 3" using exp_of_nat_mult[of 3 "1::real"] by simp
  also have "\<dots> \<le> 3 ^ 3" by (intro power_mono exp_le) simp
  finally show ?thesis by simp
qed

lemma Math_max_min_Num:
  "Math_max (Num a) (Math_min (Num b) (Num h)) = Num (max a (min b h))"
  by (simp add: Math_max_def Math_min_def max_def min_def)

lemma heartAge_equal_risks:
  assumes "age p = Num a" "clampedRiskPercentage p = Num c" "referenceRiskPercentage p = Num c"
    "c \<noteq> 0" "a \<le> 100" "of_int \<lfloor>a\<rfloor> = a"
  shows "heartAge (calculateSCORE2Risk p) = Num a"
proof -
  have "\<lfloor>a + 1/2\<rfloor> = \<lfloor>a\<rfloor>"
  proof -
    have "\<lfloor>of_int \<lfloor>a\<rfloor> + (1/2::real)\<rfloor> = \<lfloor>a\<rfloor>" by simp
    then show ?thesis using assms(6) by simp
  qed
  then have "of_int \<lfloor>a + 1/2\<rfloor> = a" using assms(6) by simp
  then show ?thesis
    using assms(1-5)
    by (simp add: result_heartAge calculateHeartAge_def num_sub_def Math_max_min_Num Let_def)
qed


lemma concave_scale:
  fixes y k :: real
  assumes "0 \<le> y" "1 \<le> k"
  shows "1 - exp (- (k * y)) \<le> k * (1 - exp (- y))"
proof -
  define d where "d = (k - 1) * y"
  have d: "0 \<le> d" using assms by (simp add: d_def)
  have "k * y = y + d" by (simp add: d_def algebra_simps)
  then have e: "exp (- (k * y)) = exp (- y) * exp (- d)" by (simp add: exp_add[symmetric])
  have "1 - d \<le> exp (- d)" using exp_ge_add_one_self[of "- d"] by simp
  then have "exp (- y) * (1 - d) \<le> exp (- y) * exp (- d)"
    by (intro mult_left_mono) simp_all
  then have 1: "1 - exp (- (k * y)) \<le> 1 - exp (- y) + exp (- y) * d"
    by (simp add: e algebra_simps)
  have "(1 + y) * exp (- y) \<le> exp y * exp (- y)"
    by (intro mult_right_mono) simp_all
  then have "y * exp (- y) \<le> 1 - exp (- y)"
    by (simp add: exp_add[symmetric] algebra_simps)
  then have "(k - 1) * (y * exp (- y)) \<le> (k - 1) * (1 - exp (- y))"
    using assms(2) by (intro mult_left_mono) simp_all
  then have 2: "exp (- y) * d \<le> (k - 1) * (1 - exp (- y))"
    by (simp add: d_def algebra_simps)
  from 1 2 show ?thesis by (simp add: algebra_simps)
qed

lemma clamp_scale:
  fixes x y k :: real
  assumes "x \<le> k * y" "1 \<le> k"
  shows "max (1/10) (min 50 x) \<le> k * max (1/10) (min 50 y)"
proof -
  have a: "1/10 \<le> k * max (1/10) (min 50 y)"
  proof -
    have "1/10 \<le> max (1/10) (min 50 y)" by simp
    also have "\<dots> \<le> k * max (1/10) (min 50 y)"
      using assms(2) by (simp add: mult_le_cancel_right1 max_def min_def)
    finally show ?thesis .
  qed
  have b: "min 50 x \<le> k * max (1/10) (min 50 y)"
  proof (cases "y \<le> 50")
    case True
    have "min 50 x \<le> k * y" using assms(1) by simp
    also have "k * y \<le> k * max (1/10) (min 50 y)"
      using assms(2) True by (intro mult_left_mono) (simp_all add: max_def min_def)
    finally show ?thesis .
  next
    case False
    then have "max (1/10) (min 50 y) = 50" by (simp add: max_def min_def)
    moreover have "(50::real) \<le> k * 50" using assms(2) by simp
    ultimately show ?thesis by (simp add: min_def)
  qed
  from a b show ?thesis by simp
qed

lemma heartAge_Num:
  assumes "age p = Num a" "clampedRiskPercentage p = Num c" "referenceRiskPercentage p = Num r"
    "r \<noteq> 0"
  shows "heartAge (calculateSCORE2Risk p)
           = Num (max a (min 100 (of_int \<lfloor>a + (c / r - 1) * 10 + 1/2\<rfloor>)))"
  using assms
  by (simp add: result_heartAge calculateHeartAge_def num_sub_def Math_max_min_Num Let_def)

lemma heartAge_spec_Num:
  assumes "age p = Num a" "clampedRiskPercentage p = Num c"
    "clampedRiskPercentage (referenceParams p) = Num r" "r \<noteq> 0"
  shows "heartAge_spec p = Num (max a (min 100 (of_int \<lfloor>a + (c / r - 1) * 10 + 1/2\<rfloor>)))"
  using assms
  by (simp add: heartAge_spec_def num_sub_def Math_max_min_Num Let_def)


text \<open>
  The reference of the heart age is not what the stages of the main computation give on
  the reference parameter set when the unit is mg/dL: there the main computation divides
  the total cholesterol 5.0 by 38.67, and the source of the heart age uses the literal
  \<^verbatim>\<open>Math.log(5.0 / 5.0)\<close>. For a man of 55 with 193.35 mg/dL, who matches the
  reference profile, the code returns 55, and the formula of the specification at least
  56. And with a negative HDL value the heart age is \<^verbatim>\<open>NaN\<close>, within no bounds.
\<close>

theorem heartAge_mg_dL:
  "valid_params ((patient 55 ''male'' ''moderate'' ''non-smoker'' 120 193.35)\<lparr>cholesterolUnit := ''mg/dL''\<rparr>)
   \<and> heartAge (calculateSCORE2Risk
        ((patient 55 ''male'' ''moderate'' ''non-smoker'' 120 193.35)\<lparr>cholesterolUnit := ''mg/dL''\<rparr>))
       = Num 55
   \<and> num_le (Num 56)
        (heartAge_spec
          ((patient 55 ''male'' ''moderate'' ''non-smoker'' 120 193.35)\<lparr>cholesterolUnit := ''mg/dL''\<rparr>))
   \<and> valid_params ((patient 55 ''male'' ''moderate'' ''non-smoker'' 130 5)\<lparr>hdlCholesterol := Some (Num (- 1))\<rparr>)
   \<and> heartAge (calculateSCORE2Risk
        ((patient 55 ''male'' ''moderate'' ''non-smoker'' 130 5)\<lparr>hdlCholesterol := Some (Num (- 1))\<rparr>))
       = NaN"
proof -
  let ?p = "(patient 55 ''male'' ''moderate'' ''non-smoker'' 120 193.35)\<lparr>cholesterolUnit := ''mg/dL''\<rparr>"
  let ?k = "(patient 55 ''male'' ''moderate'' ''non-smoker'' 130 5)\<lparr>hdlCholesterol := Some (Num (- 1))\<rparr>"
  define s0 :: real where "s0 = ln (55/40) * (8/10) + 5/10"
  define sr :: real where "sr = s0 + ln (100/3867) * (3/10)"
  define c :: real where "c = max (1/10) (min 50 ((1 - exp (- (exp s0 * (8/100)))) * 100))"
  define r :: real where "r = max (1/10) (min 50 ((1 - exp (- (exp sr * (8/100)))) * 100))"
  have v: "valid_params ?p" "valid_params ?k"
    by (simp_all add: valid_params_def patient_def in_range_def positive_def)
  have a: "age ?p = Num 55" by (simp add: patient_def)
  have op: "\<not> useScore2OP ?p" "\<not> useScore2OP (referenceParams ?p)"
    "\<not> useScore2OP (referenceProfile ?p)"
    by (simp_all add: useScore2OP_def num_ge_def patient_def)
  have "riskScore ?p = Num s0"
    by (simp add: riskScore_def patient_def totalChol_def hdlChol_def or_null_def
        useScore2OP_def num_ge_def s0_def)
  from clamped_patient[OF this op(1)] have cp: "clampedRiskPercentage ?p = Num c"
    by (simp only: c_def)
  have "riskScore (referenceProfile ?p) = Num s0"
    by (simp add: riskScore_def patient_def hdlChol_def or_null_def
        useScore2OP_def num_ge_def s0_def)
  from clamped_patient[OF this op(3)] have rp: "referenceRiskPercentage ?p = Num c"
    by (simp only: c_def reference_is_profile)
  have c01: "1/10 \<le> c" by (simp add: c_def)
  then have c0: "c \<noteq> 0" by simp
  have code: "heartAge (calculateSCORE2Risk ?p) = Num 55"
    by (rule heartAge_equal_risks[OF a cp rp c0]) simp_all
  \<comment> \<open>the reference of the specification\<close>
  have "riskScore (referenceParams ?p) = Num sr"
    by (simp add: riskScore_def patient_def totalChol_def hdlChol_def or_null_def
        useScore2OP_def num_ge_def referenceParams_def s0_def sr_def)
  from clamped_patient[OF this op(2)] have rs: "clampedRiskPercentage (referenceParams ?p) = Num r"
    by (simp only: r_def)
  have r01: "1/10 \<le> r" by (simp add: r_def)
  then have r0: "r \<noteq> 0" "0 < r" by simp_all
  have spec: "heartAge_spec ?p
                = Num (max 55 (min 100 (of_int \<lfloor>55 + (c / r - 1) * 10 + 1/2\<rfloor>)))"
    by (rule heartAge_spec_Num[OF a cp rs r0(1)])
  \<comment> \<open>the percentage is at least 10.7\<close>
  have l0: "(0::real) \<le> ln (55/40)" by simp
  then have "1/2 \<le> s0" by (simp add: s0_def)
  then have "exp (1/2) \<le> exp s0" by simp
  moreover have "(3/2::real) \<le> exp (1/2)" using exp_ge_add_one_self[of "1/2::real"] by simp
  ultimately have "12/100 \<le> exp s0 * (8/100)" by linarith
  from raw_lower[OF _ this] have "107/10 \<le> (1 - exp (- (exp s0 * (8/100)))) * 100" by simp
  then have cl: "107/10 \<le> c" unfolding c_def by (intro clamp_ge) simp_all
  \<comment> \<open>the reference of the specification is at most 8\<close>
  have "ln (55/40) \<le> (55/40::real) - 1" by (rule ln_le_minus_one) simp
  then have s08: "s0 \<le> 8/10" by (simp add: s0_def)
  have "(100/3867::real) \<le> 1/27" by simp
  also have "(1/27::real) \<le> exp (- 3)"
    using exp_3_le by (simp add: exp_minus field_simps)
  finally have "ln (100/3867) \<le> (- 3::real)" by (intro ln_upper) simp_all
  with s08 have "sr \<le> 0" by (simp add: sr_def)
  then have "exp sr \<le> 1" by simp
  moreover have "(1 - exp (- (exp sr * (8/100)))) * 100 \<le> exp sr * (8/100) * 100"
    by (rule raw_upper) simp
  ultimately have "(1 - exp (- (exp sr * (8/100)))) * 100 \<le> 8" by linarith
  then have ru: "r \<le> 8" unfolding r_def by (intro clamp_le) simp_all
  have "105/100 * r \<le> c" using cl ru by linarith
  then have "105/100 \<le> c / r" using r0(2) by (simp add: pos_le_divide_eq)
  moreover have "\<And>q::real. 105/100 \<le> q \<Longrightarrow> 56 \<le> 55 + (q - 1) * 10 + 1/2" by simp
  ultimately have "(56::real) \<le> 55 + (c / r - 1) * 10 + 1/2" by blast
  then have "(56::int) \<le> \<lfloor>55 + (c / r - 1) * 10 + 1/2\<rfloor>" by (simp only: le_floor_iff)
  then have "(56::real) \<le> of_int \<lfloor>55 + (c / r - 1) * 10 + 1/2\<rfloor>" by linarith
  then have "(56::real) \<le> max 55 (min 100 (of_int \<lfloor>55 + (c / r - 1) * 10 + 1/2\<rfloor>))"
    by (simp add: max_def min_def)
  then have sp: "num_le (Num 56) (heartAge_spec ?p)" unfolding spec by simp
  \<comment> \<open>a negative HDL value\<close>
  have "hdlChol ?k = Some (Num (- 1))"
    by (simp add: hdlChol_def or_null_def patient_def)
  then have "riskScore ?k = NaN"
    by (simp add: riskScore_def patient_def totalChol_def useScore2OP_def num_ge_def)
  then have "clampedRiskPercentage ?k = NaN"
    by (simp add: clampedRiskPercentage_def percentage_def num_sub_def)
  then have k: "heartAge (calculateSCORE2Risk ?k) = NaN"
    by (simp add: result_heartAge calculateHeartAge_def num_sub_def Math_max_def Math_min_def
        Let_def patient_def)
  from v code sp k show ?thesis by simp
qed


theorem heartAge_formula_witness:
  "num_le (Num 55) (heartAge (calculateSCORE2Risk (patient 55 ''male'' ''moderate'' ''smoker'' 130 5)))
   \<and> num_le (heartAge (calculateSCORE2Risk (patient 55 ''male'' ''moderate'' ''smoker'' 130 5))) (Num 100)"
proof -
  let ?p = "patient 55 ''male'' ''moderate'' ''smoker'' 130 5"
  have v: "valid_params ?p"
    by (simp add: valid_params_def patient_def in_range_def positive_def)
  have h: "hdl_ok ?p" by (simp add: hdl_ok_def patient_def)
  have a: "age ?p = Num 55" by (simp add: patient_def)
  from heartAge_formula[OF v h] show ?thesis unfolding a by blast
qed

text \<open>
  C6. The example of the specification: a man of 55, moderate risk region, non-smoker,
  blood pressure 130, total cholesterol 5.0 mmol/L, nothing else given. The algorithm
  is SCORE2 and the heart age is 55. The blood pressure is not the 120 of the reference
  profile, so the ratio is not 1; it is between 1 and 30/29, and the rounding absorbs it.
\<close>

theorem example_patient_heartAge:
  "algorithm (calculateSCORE2Risk (patient 55 ''male'' ''moderate'' ''non-smoker'' 130 5)) = ''SCORE2''
   \<and> heartAge (calculateSCORE2Risk (patient 55 ''male'' ''moderate'' ''non-smoker'' 130 5)) = Num 55"
proof -
  let ?p = "patient 55 ''male'' ''moderate'' ''non-smoker'' 130 5"
  define s0 :: real where "s0 = ln (55/40) * (8/10) + 5/10"
  define d :: real where "d = ln (130/120) * (4/10)"
  define y :: real where "y = exp s0 * (8/100)"
  define c :: real where "c = max (1/10) (min 50 ((1 - exp (- (exp (s0 + d) * (8/100)))) * 100))"
  define r :: real where "r = max (1/10) (min 50 ((1 - exp (- (exp s0 * (8/100)))) * 100))"
  have a: "age ?p = Num 55" by (simp add: patient_def)
  have op: "\<not> useScore2OP ?p" "\<not> useScore2OP (referenceProfile ?p)"
    by (simp_all add: useScore2OP_def num_ge_def patient_def)
  then have alg: "algorithm (calculateSCORE2Risk ?p) = ''SCORE2''"
    by (simp add: calculateSCORE2Risk_def Let_def)
  have "riskScore ?p = Num (s0 + d)"
    by (simp add: riskScore_def patient_def totalChol_def hdlChol_def or_null_def
        useScore2OP_def num_ge_def s0_def d_def)
  from clamped_patient[OF this op(1)] have cp: "clampedRiskPercentage ?p = Num c"
    by (simp only: c_def)
  have "riskScore (referenceProfile ?p) = Num s0"
    by (simp add: riskScore_def patient_def hdlChol_def or_null_def
        useScore2OP_def num_ge_def s0_def)
  from clamped_patient[OF this op(2)] have rp: "referenceRiskPercentage ?p = Num r"
    by (simp only: r_def reference_is_profile)
  have r01: "1/10 \<le> r" by (simp add: r_def)
  then have r0: "r \<noteq> 0" "0 < r" by simp_all
  \<comment> \<open>the blood pressure term is between 0 and 1/30\<close>
  have d0: "0 \<le> d" by (simp add: d_def)
  have "ln (130/120) \<le> (130/120::real) - 1" by (rule ln_le_minus_one) simp
  then have d1: "d \<le> 1/30" by (simp add: d_def)
  have "(29/30::real) \<le> exp (- (1/30))" using exp_ge_add_one_self[of "- (1/30)::real"] by simp
  from exp_upper[OF _ this] have "exp (1/30::real) \<le> 30/29" by simp
  moreover have "exp d \<le> exp (1/30)" using d1 by simp
  ultimately have k: "exp d \<le> 30/29" by linarith
  have k1: "1 \<le> exp d" using d0 by simp
  \<comment> \<open>the percentage is between the reference and 30/29 of it\<close>
  have y0: "0 \<le> y" by (simp add: y_def)
  have e: "exp (s0 + d) * (8/100) = exp d * y" by (simp add: y_def exp_add)
  have "1 - exp (- (exp d * y)) \<le> exp d * (1 - exp (- y))"
    by (rule concave_scale[OF y0 k1])
  also have "\<dots> \<le> 30/29 * (1 - exp (- y))"
    using k y0 by (intro mult_right_mono) simp_all
  finally have "(1 - exp (- (exp (s0 + d) * (8/100)))) * 100
                  \<le> 30/29 * ((1 - exp (- (exp s0 * (8/100)))) * 100)"
    unfolding e by (simp add: y_def)
  then have cu: "c \<le> 30/29 * r" unfolding c_def r_def by (intro clamp_scale) simp_all
  have "(1 - exp (- (exp s0 * (8/100)))) * 100 \<le> (1 - exp (- (exp (s0 + d) * (8/100)))) * 100"
    using d0 by (intro raw_mono) simp_all
  then have cl: "r \<le> c" unfolding c_def r_def by (rule clamp_mono)
  have q1: "1 \<le> c / r" using cl r0(2) by (simp add: pos_le_divide_eq)
  have q2: "c / r \<le> 30/29" using cu r0(2) by (simp add: pos_divide_le_eq)
  have fl: "\<And>q::real. 1 \<le> q \<Longrightarrow> q \<le> 30/29 \<Longrightarrow> \<lfloor>55 + (q - 1) * 10 + 1/2\<rfloor> = 55"
    by (simp add: floor_eq_iff)
  have "\<lfloor>55 + (c / r - 1) * 10 + 1/2\<rfloor> = 55" by (rule fl[OF q1 q2])
  with heartAge_Num[OF a cp rp r0(1)] have "heartAge (calculateSCORE2Risk ?p) = Num 55"
    by simp
  with alg show ?thesis by simp
qed

section \<open>The interpretation\<close>

lemma result_interpretation:
  "interpretation' (calculateSCORE2Risk p) = generateInterpretation (clampedRiskPercentage p) (sex p)"
  by (simp add: calculateSCORE2Risk_def Let_def)


text \<open>
  C7, as the code has it. The interpretation is the template with the word for the sex
  and with the number \<open>round c\<close>, where \<open>c\<close> is the clamped percentage before it is
  rounded to one decimal: \<^verbatim>\<open>generateInterpretation\<close> gets the local variable, not the
  field of the result.
\<close>

theorem interpretation_template:
  "interpretation' (calculateSCORE2Risk p)
     = ''This means out of 100 '' @ (if sex p = ''male'' then ''men'' else ''women'')
       @ '' like you, about '' @ String_of_rounded (Math_round (clampedRiskPercentage p))
       @ '' will have a heart attack or stroke in the next 10 years.''"
  by (simp add: result_interpretation generateInterpretation_def)


lemma decimal_11: "decimal_of_int 11 = ''11''" "decimal_of_int 12 = ''12''"
  by (simp_all add: decimal_of_int_def)


text \<open>
  Rounding the returned field instead gives another number when the clamped percentage
  is just below a half: for a woman of 40 who smokes, in a low risk region, it is between
  11.45 and 11.47; the returned percentage is 11.5, whose rounding is 12, and the
  interpretation says 11.
\<close>

theorem interpretation_double_rounding:
  "valid_params (patient 40 ''female'' ''low'' ''smoker'' 120 5)
   \<and> riskPercentage (calculateSCORE2Risk (patient 40 ''female'' ''low'' ''smoker'' 120 5))
       = Num (115/10)
   \<and> interpretation' (calculateSCORE2Risk (patient 40 ''female'' ''low'' ''smoker'' 120 5))
       = ''This means out of 100 women like you, about 11 will have a heart attack or stroke in the next 10 years.''
   \<and> generateInterpretation
         (riskPercentage (calculateSCORE2Risk (patient 40 ''female'' ''low'' ''smoker'' 120 5)))
         (sex (patient 40 ''female'' ''low'' ''smoker'' 120 5))
       = ''This means out of 100 women like you, about 12 will have a heart attack or stroke in the next 10 years.''"
proof -
  let ?p = "patient 40 ''female'' ''low'' ''smoker'' 120 5"
  define c :: real where "c = max (1/10) (min 50 ((1 - exp (- (exp (42/100) * (8/100)))) * 100))"
  have v: "valid_params ?p"
    by (simp add: valid_params_def patient_def in_range_def positive_def)
  have sx: "sex ?p = ''female''" by (simp add: patient_def)
  have op: "\<not> useScore2OP ?p"
    by (simp add: useScore2OP_def num_ge_def patient_def)
  have "riskScore ?p = Num (42/100)"
    by (simp add: riskScore_def patient_def totalChol_def hdlChol_def or_null_def
        useScore2OP_def num_ge_def)
  from clamped_patient[OF this op] have cp: "clampedRiskPercentage ?p = Num c"
    by (simp only: c_def)
  \<comment> \<open>the exponent is between 0.1217 and 0.1218\<close>
  have "(152125/100000::real) \<le> exp (42/100)"
    using exp_poly6[of "42/100"] by (simp add: eval_nat_numeral)
  then have yl: "1217/10000 \<le> exp (42/100) * (8/100::real)" by simp
  have "(100000/152250::real) \<le> exp (- (42/100))"
    using exp_poly6[of "- (42/100)"] by (simp add: eval_nat_numeral)
  from exp_upper[OF _ this] have "exp (42/100::real) \<le> 152250/100000" by simp
  then have yu: "exp (42/100) * (8/100::real) \<le> 1218/10000" by simp
  \<comment> \<open>so the percentage is between 11.45 and 11.47\<close>
  define E :: real where "E = exp (- (exp (42/100) * (8/100)))"
  have cE: "c = max (1/10) (min 50 ((1 - E) * 100))" by (simp only: c_def E_def)
  have "(11294/10000::real) \<le> exp (1217/10000)"
    using exp_poly4[of "1217/10000"] by (simp add: eval_nat_numeral)
  then have "exp (- (1217/10000)) \<le> (10000/11294::real)"
    using exp_upper[of "11294/10000" "- (1217/10000)"] by simp
  moreover have "E \<le> exp (- (1217/10000::real))"
    unfolding E_def using yl by simp
  ultimately have "E \<le> 10000/11294" by (rule order_trans[rotated])
  then have "1145/100 \<le> (1 - E) * 100" by simp
  then have cl: "1145/100 \<le> c" unfolding cE by (intro clamp_ge) simp_all
  have "(8853/10000::real) \<le> exp (- (1218/10000))"
    using exp_poly4[of "- (1218/10000)"] by (simp add: eval_nat_numeral)
  moreover have "exp (- (1218/10000::real)) \<le> E"
    unfolding E_def using yu by simp
  ultimately have "8853/10000 \<le> E" by (rule order_trans)
  then have "(1 - E) * 100 \<le> 1147/100" by simp
  then have cu: "c \<le> 1147/100" unfolding cE by (intro clamp_le) simp_all
  have f1: "\<lfloor>c * 10 + 1/2\<rfloor> = 115" using cl cu by (simp add: floor_eq_iff)
  have f2: "\<lfloor>c + 1/2\<rfloor> = 11" using cl cu by (simp add: floor_eq_iff)
  have rp: "riskPercentage (calculateSCORE2Risk ?p) = Num (115/10)"
    using result_Num[OF cp] f1 by simp
  have i1: "interpretation' (calculateSCORE2Risk ?p)
    = ''This means out of 100 women like you, about 11 will have a heart attack or stroke in the next 10 years.''"
    by (simp add: result_interpretation generateInterpretation_def cp f2 sx decimal_11)
  have "\<lfloor>115/10 + 1/2 :: real\<rfloor> = 12" by simp
  then have i2: "generateInterpretation (riskPercentage (calculateSCORE2Risk ?p)) (sex ?p)
    = ''This means out of 100 women like you, about 12 will have a heart attack or stroke in the next 10 years.''"
    unfolding rp by (simp add: generateInterpretation_def sx decimal_11)
  from v rp i1 i2 show ?thesis by simp
qed

section \<open>Age\<close>

lemma age_update_fields [simp]:
  "systolicBP (p\<lparr>age := x\<rparr>) = systolicBP p"
  "totalChol (p\<lparr>age := x\<rparr>) = totalChol p" "hdlChol (p\<lparr>age := x\<rparr>) = hdlChol p"
  by (simp_all add: totalChol_def hdlChol_def)

lemma age_monotone_same_algorithm:
  assumes "valid_params p" "hdl_ok p" "age p = Num a" "a \<le> a'" "a' \<le> 100"
    and "a' < 70 \<or> 70 \<le> a"
  shows "num_le (riskPercentage (calculateSCORE2Risk p))
                (riskPercentage (calculateSCORE2Risk (p\<lparr>age := Num a'\<rparr>)))"
proof -
  let ?q = "p\<lparr>age := Num a'\<rparr>"
  from assms(1,3) obtain b where ab: "40 \<le> a" "systolicBP p = Num b" "80 \<le> b"
    by (auto elim: valid_params_fields)
  then have pos: "0 < a" "0 < a'" "0 < b" using assms(4) by simp_all
  from assms(1) have "region p \<in> {''low'', ''moderate'', ''high'', ''very-high''}"
    by (simp add: valid_params_def)
  from regionalFactor_valid[OF this] obtain f where f: "regionalFactor (region p) = Num f" "0 < f"
    by blast
  note h = hdl_ok_hdlChol[OF assms(2)]
  have band: "(70 \<le> a') = (70 \<le> a)" using assms(4,6) by auto
  from valid_params_chol[OF assms(1)] show ?thesis
  proof
    assume "\<exists>c. totalChol p = Num c \<and> 0 < c"
    then obtain c where c: "totalChol p = Num c" "0 < c" by blast
    define k :: real where "k = (if sex p = ''male'' then 0.8 else 0.7)"
    define tail :: real where
      "tail = (if sex p = ''male'' then 0.5 else 0)
           + (if smoking p = ''smoker'' then 0.6 else 0)
           + ln (b / 120) * 0.4 + ln (c / 5) * 0.3
           + (case hdlChol p of Some (Num h) \<Rightarrow> - ln (h / 1.3) * 0.2 | _ \<Rightarrow> 0)
           + (if diabetes p = ''yes'' then 0.4 else 0)"
    define g :: real where "g = f * (if 70 \<le> a then 1.2 else 1)"
    have g: "0 < g" using f(2) by (simp add: g_def)
    have k: "0 < k" by (simp add: k_def)
    have sp: "riskScore p = Num ((ln (a / 40) * k + tail) * g)"
      using riskScore_Num[OF assms(3) pos(1) ab(2) pos(3) c h f(1)]
      by (simp add: k_def tail_def g_def algebra_simps)
    have sq: "riskScore ?q = Num ((ln (a' / 40) * k + tail) * g)"
      using riskScore_Num[of ?q a' b c f] ab(2) pos c h f(1) band
      by (simp add: k_def tail_def g_def algebra_simps)
    have "ln (a / 40) \<le> ln (a' / 40)" using pos assms(4) by simp
    then have "ln (a / 40) * k \<le> ln (a' / 40) * k" using k by (intro mult_right_mono) simp_all
    then have le: "(ln (a / 40) * k + tail) * g \<le> (ln (a' / 40) * k + tail) * g"
      using g by (intro mult_right_mono) simp_all
    have "useScore2OP p = useScore2OP ?q"
      using assms(3) band by (simp add: useScore2OP_def num_ge_def)
    from result_mono[OF sp sq le this] show ?thesis .
  next
    assume t: "totalChol p = PosInf"
    have "riskScore p = PosInf"
      by (rule riskScore_PosInf[OF assms(3) pos(1) ab(2) pos(3) t h f])
    moreover have "riskScore ?q = PosInf"
      by (rule riskScore_PosInf[of ?q a' b f]) (use ab pos t h f in simp_all)
    ultimately show ?thesis by (simp add: result_PosInf)
  qed
qed

text \<open>Bounds on the logarithms of the failing input below.\<close>

lemma exp_times4: "exp (4 * x) = exp (x::real) ^ 4"
  using exp_of_nat_mult[of 4 x] by simp

lemma ln10_upper: "ln (10::real) \<le> 23052/10000"
proof -
  have "(17783/10000::real) \<le> exp (5763/10000)"
    using exp_poly6[of "5763/10000"] by (simp add: eval_nat_numeral)
  then have "(17783/10000::real) ^ 4 \<le> exp (5763/10000) ^ 4"
    by (intro power_mono) simp_all
  moreover have "(10::real) \<le> (17783/10000) ^ 4" by (simp add: eval_nat_numeral)
  moreover have "exp (5763/10000::real) ^ 4 = exp (23052/10000)"
    using exp_times4[of "5763/10000"] by simp
  ultimately have "(10::real) \<le> exp (23052/10000)" by linarith
  then show ?thesis by (intro ln_upper) simp_all
qed

lemma ln10_lower: "(23/10::real) \<le> ln 10"
proof -
  have "(10000/17778::real) \<le> exp (- (575/1000))"
    using exp_poly6[of "- (575/1000)"] by (simp add: eval_nat_numeral)
  from exp_upper[OF _ this] have "exp (575/1000::real) \<le> 17778/10000" by simp
  then have "exp (575/1000::real) ^ 4 \<le> (17778/10000) ^ 4"
    by (intro power_mono) simp_all
  moreover have "(17778/10000::real) ^ 4 \<le> 10" by (simp add: eval_nat_numeral)
  moreover have "exp (575/1000::real) ^ 4 = exp (23/10)"
    using exp_times4[of "575/1000"] by simp
  ultimately have "exp (23/10::real) \<le> 10" by linarith
  then show ?thesis by (intro ln_lower) simp_all
qed

lemma ln_69_40_lower: "(53/100::real) \<le> ln (69/40)"
proof -
  have "(585/1000::real) \<le> exp (- (53/100))"
    using exp_poly4[of "- (53/100)"] by (simp add: eval_nat_numeral)
  from exp_upper[OF _ this] have "exp (53/100::real) \<le> 69/40" by simp
  then show ?thesis by (intro ln_lower) simp_all
qed

lemma ln_7_4_upper: "ln (7/4::real) \<le> 56/100"
proof -
  have "(7/4::real) \<le> exp (56/100)"
    using exp_poly6[of "56/100"] by (simp add: eval_nat_numeral)
  then show ?thesis by (intro ln_upper) simp_all
qed

lemma ln_tenmillionth: "ln (1/10000000::real) = - (7 * ln 10)"
proof -
  have "(10000000::real) = 10 ^ 7" by simp
  then have "ln (10000000::real) = 7 * ln 10" by (simp only: ln_realpow)
  then show ?thesis by (simp add: ln_div)
qed

text \<open>
  C3 fails on the code at the switch to SCORE2-OP. From 70 on the score is multiplied
  by 1.2, which lowers a score below zero, and the higher baseline (0.15 for 0.08) makes
  up for it only while the score is above about -3.1. For a man in a moderate risk
  region, non-smoker, blood pressure 120, with a total cholesterol of 0.0000005 mmol/L
  (a value the validator accepts), the returned percentage is 0.2 at 69 and 0.1 at 70.
  Between two ages on the same side of 70 the percentage does not decrease
  (\<open>age_monotone_same_algorithm\<close>).
\<close>

theorem age_70_switch_lowers:
  "valid_params (patient 69 ''male'' ''moderate'' ''non-smoker'' 120 0.0000005)
   \<and> valid_params (patient 70 ''male'' ''moderate'' ''non-smoker'' 120 0.0000005)
   \<and> riskPercentage (calculateSCORE2Risk (patient 69 ''male'' ''moderate'' ''non-smoker'' 120 0.0000005))
       = Num (2/10)
   \<and> riskPercentage (calculateSCORE2Risk (patient 70 ''male'' ''moderate'' ''non-smoker'' 120 0.0000005))
       = Num (1/10)"
proof -
  let ?y = "patient 69 ''male'' ''moderate'' ''non-smoker'' 120 0.0000005"
  let ?o = "patient 70 ''male'' ''moderate'' ''non-smoker'' 120 0.0000005"
  define sy :: real where "sy = ln (69/40) * (8/10) + 1/2 - (21/10) * ln 10"
  define so :: real where "so = (ln (7/4) * (8/10) + 1/2 - (21/10) * ln 10) * (12/10)"
  define cy :: real where "cy = max (1/10) (min 50 ((1 - exp (- (exp sy * (8/100)))) * 100))"
  define co :: real where "co = max (1/10) (min 50 ((1 - exp (- (exp so * (15/100)))) * 100))"
  have v: "valid_params ?y" "valid_params ?o"
    by (simp_all add: valid_params_def patient_def in_range_def positive_def)
  have op: "\<not> useScore2OP ?y" "useScore2OP ?o"
    by (simp_all add: useScore2OP_def num_ge_def patient_def)
  have "riskScore ?y = Num sy"
    by (simp add: riskScore_def patient_def totalChol_def hdlChol_def or_null_def
        useScore2OP_def num_ge_def sy_def ln_tenmillionth)
  from clamped_patient[OF this op(1)] have y: "clampedRiskPercentage ?y = Num cy"
    by (simp only: cy_def)
  have "riskScore ?o = Num so"
    by (simp add: riskScore_def patient_def totalChol_def hdlChol_def or_null_def
        useScore2OP_def num_ge_def so_def ln_tenmillionth)
  from clamped_patient_OP[OF this op(2)] have o: "clampedRiskPercentage ?o = Num co"
    by (simp only: co_def)
  \<comment> \<open>the score at 69 is between -3.92 and -3.882\<close>
  have syl: "- (392/100) \<le> sy"
    using ln_69_40_lower ln10_upper by (simp add: sy_def)
  have l: "ln (69/40) \<le> ln (7/4::real)" by simp
  have syu: "sy \<le> - (3882/1000)"
    unfolding sy_def using l ln_7_4_upper ln10_lower by linarith
  \<comment> \<open>the score at 70, times 1.2, is at most -4.6584\<close>
  have sou: "so \<le> - (46584/10000)"
    using ln_7_4_upper ln10_lower by (simp add: so_def)
  \<comment> \<open>at 69 the clamped percentage is at least 0.15\<close>
  have "(1000/2680::real) \<le> exp (- (98/100))"
    using exp_poly6[of "- (98/100)"] by (simp add: eval_nat_numeral)
  from exp_upper[OF _ this] have "exp (98/100::real) \<le> 268/100" by simp
  then have "exp (98/100::real) ^ 4 \<le> (268/100) ^ 4" by (intro power_mono) simp_all
  moreover have "exp (98/100::real) ^ 4 = exp (392/100)"
    using exp_times4[of "98/100"] by simp
  moreover have "(268/100::real) ^ 4 \<le> 5159/100" by (simp add: eval_nat_numeral)
  ultimately have "exp (392/100::real) \<le> 5159/100" by linarith
  then have "(100/5159::real) \<le> exp (- (392/100))"
    by (simp add: exp_minus field_simps)
  moreover have "exp (- (392/100)) \<le> exp sy" using syl by simp
  ultimately have "155/100000 \<le> exp sy * (8/100)" by linarith
  from raw_lower[OF _ this] have "15/100 \<le> (1 - exp (- (exp sy * (8/100)))) * 100" by simp
  then have cyl: "15/100 \<le> cy" unfolding cy_def by (intro clamp_ge) simp_all
  \<comment> \<open>and below 0.25\<close>
  have "(34::real) \<le> exp (3882/1000)"
    using exp_poly6[of "3882/1000"] by (simp add: eval_nat_numeral)
  then have "exp (- (3882/1000)) \<le> (1/34::real)"
    using exp_upper[of 34 "- (3882/1000)"] by simp
  moreover have "exp sy \<le> exp (- (3882/1000))" using syu by simp
  moreover have "(1 - exp (- (exp sy * (8/100)))) * 100 \<le> exp sy * (8/100) * 100"
    by (rule raw_upper) simp
  ultimately have "(1 - exp (- (exp sy * (8/100)))) * 100 \<le> 24/100" by linarith
  then have cyu: "cy \<le> 24/100" unfolding cy_def by (intro clamp_le) simp_all
  \<comment> \<open>at 70 the clamped percentage is below 0.15\<close>
  have "(319/100::real) \<le> exp (11646/10000)"
    using exp_poly6[of "11646/10000"] by (simp add: eval_nat_numeral)
  then have "(319/100::real) ^ 4 \<le> exp (11646/10000) ^ 4" by (intro power_mono) simp_all
  moreover have "exp (11646/10000::real) ^ 4 = exp (46584/10000)"
    using exp_times4[of "11646/10000"] by simp
  moreover have "(103::real) \<le> (319/100) ^ 4" by (simp add: eval_nat_numeral)
  ultimately have "(103::real) \<le> exp (46584/10000)" by linarith
  then have "exp (- (46584/10000)) \<le> (1/103::real)"
    using exp_upper[of 103 "- (46584/10000)"] by simp
  moreover have "exp so \<le> exp (- (46584/10000))" using sou by simp
  moreover have "(1 - exp (- (exp so * (15/100)))) * 100 \<le> exp so * (15/100) * 100"
    by (rule raw_upper) simp
  ultimately have "(1 - exp (- (exp so * (15/100)))) * 100 \<le> 146/1000" by linarith
  then have cou: "co \<le> 146/1000" unfolding co_def by (intro clamp_le) simp_all
  have col: "1/10 \<le> co" by (simp add: co_def)
  have fy: "\<lfloor>cy * 10 + 1/2\<rfloor> = 2" using cyl cyu by (simp add: floor_eq_iff)
  have fo: "\<lfloor>co * 10 + 1/2\<rfloor> = 1" using col cou by (simp add: floor_eq_iff)
  have ry: "riskPercentage (calculateSCORE2Risk ?y) = Num (2/10)"
    using result_Num[OF y] fy by simp
  have ro: "riskPercentage (calculateSCORE2Risk ?o) = Num (1/10)"
    using result_Num[OF o] fo by simp
  from v ry ro show ?thesis by simp
qed

end
